theory Spec2Isabelle
  imports Main "HOL-Library.Sublist"
begin

section \<open>The build phase of werf and the docker retry loops, as HOL functions\<close>

text \<open>
  The development embeds \<^verbatim>\<open>pkg/build/build_phase.go\<close> (the build phase: digest
  calculation, the stage handler, the atomic publish, the report) and the retry loops of
  \<^verbatim>\<open>pkg/docker/image.go\<close>.

  Go errors are modelled by their message; a function that returns \<^verbatim>\<open>error\<close>
  returns \<open>fault + unit\<close>, where \<open>Inr ()\<close> is \<^verbatim>\<open>nil\<close>. A panic is a fault
  of its own, and so is waiting for a mutex that is never released.
\<close>

datatype fault = Error string | Panic string | Blocked string

text \<open>The panic of the Go runtime when a nil pointer is dereferenced.\<close>

definition nilDereference :: fault where
  "nilDereference = Panic ''invalid memory address or nil pointer dereference''"

subsection \<open>Data model\<close>

text \<open>
  \<^verbatim>\<open>image.Info\<close>, \<^verbatim>\<open>image.StageID\<close> and \<^verbatim>\<open>image.StageDescription\<close> are declared
  outside the sources at hand; the fields are the ones the build phase reads. The source
  dereferences \<^verbatim>\<open>*stageDesc.StageID\<close>, so that field is a pointer and may be nil.
\<close>

record Info =
  InfoName :: string
  Repository :: string
  Tag :: string
  ID :: string
  Size :: int

record StageID =
  Digest :: string
  UniqueID :: int

record StageDescription =
  descStageID :: "StageID option"
  descInfo :: Info

text \<open>
  Objects that the code shares by pointer live in a store: a stage image and a stage are
  addresses (\<open>nat\<close>), and the store is total, as every non-nil Go pointer points to an
  object. A nil pointer is \<open>None\<close>.
\<close>

record StageImage =
  siName :: string
  siFromImage :: "nat option"
  siStageDescription :: "StageDescription option"

record Stage =
  stName :: string
  stLogDetailedName :: string
  stIsDockerfileStage :: bool
  stDigest :: string
  stContentDigest :: string
  stImage :: "nat option"

text \<open>
  A value of the interface type \<^verbatim>\<open>container_runtime.ImageInterface\<close>: nil, a
  \<^verbatim>\<open>*StageImage\<close> (itself a pointer, which may be nil), or an implementation of
  another type.
\<close>

datatype ImageInterface = NilImage | IsStageImage "nat option" | OtherImage

record Image =
  imName :: string
  imLogName :: string
  imLogDetailedName :: string
  isArtifact :: bool
  isDockerfileImage :: bool
  baseImage :: "nat option"
  lastNonEmptyStage :: "nat option"
  contentDigest :: string

record IntrospectTarget =
  ImageName :: string
  StageName :: string

record ReportImageRecord =
  WerfImageName :: string
  DockerRepo :: string
  DockerTag :: string
  DockerImageID :: string

text \<open>
  The report's mutex is locked and unlocked again inside \<^verbatim>\<open>SetImageRecord\<close> and
  \<^verbatim>\<open>ToJson\<close>; what is kept of the report is its map.
\<close>

record ImagesReport =
  Images :: "string \<rightharpoonup> ReportImageRecord"

text \<open>
  \<^verbatim>\<open>BuildOptions\<close> is embedded in \<^verbatim>\<open>BuildPhaseOptions\<close>, which is embedded in
  \<^verbatim>\<open>BuildPhase\<close>. \<^verbatim>\<open>BuildPhase\<close> declares \<^verbatim>\<open>ReportPath\<close> and
  \<^verbatim>\<open>ReportFormat\<close> itself as well: a selector \<^verbatim>\<open>phase.ReportPath\<close> denotes the
  field at the shallowest depth, the phase's own, here \<open>ReportPath\<close>; the options' fields
  are \<open>optReportPath\<close> and \<open>optReportFormat\<close>.
\<close>

record BuildOptions =
  Targets :: "IntrospectTarget list"
  optReportPath :: string
  optReportFormat :: string
  DryRun :: bool

record BuildPhaseOptions = BuildOptions +
  ShouldBeBuiltMode :: bool

record StagesIterator =
  PrevNonEmptyStage :: "nat option"
  PrevBuiltStage :: "nat option"

record BuildPhase =
  options :: "unit BuildPhaseOptions_scheme"
  iterator :: StagesIterator
  ShouldAddManagedImageRecord :: bool
  report :: ImagesReport
  ReportPath :: string
  ReportFormat :: string

definition ReportJSON :: string where
  "ReportJSON = ''json''"

text \<open>
  The conveyor: its images, as they are when the phase reads them, its registry of stage
  images by name, the per-digest mutexes that are locked, and the settings the build phase
  reads.
\<close>

record Conveyor =
  images :: "Image list"
  stageImages :: "string \<rightharpoonup> nat"
  lockedDigests :: "string set"
  projectName :: string
  sshAuthSock :: string
  Parallel :: bool
  localGitRepo :: "nat option"

subsection \<open>Calls that leave the build phase\<close>

text \<open>
  Every call to a collaborator (the stage's hooks, the storage manager, the lock manager,
  the container runtime, the file system, the log) is written to a trace, with its
  arguments and its result. A collaborator's error is its message (\<open>Inl msg\<close>).
\<close>

datatype event =
    EvFetchDependencies nat "string option"
  | EvGetDependencies nat ImageInterface ImageInterface "string + string"
  | EvGetNextStageDependencies nat "string + string"
  | EvMutexLock string
  | EvMutexUnlock string
  | EvGetStagesByDigest string string "string + StageDescription list"
  | EvSelectSuitableStage nat "StageDescription list" "string + StageDescription option"
  | EvNewUUID string
  | EvWarn string
  | EvFetchBaseImage string "string option"
  | EvFetchStage "nat option" "string option"
  | EvAppendBuildArgs nat "string list"
  | EvAppendOnTerminateFunc nat
  | EvAddLabel nat "string \<rightharpoonup> string"
  | EvAddVolume nat string
  | EvAddEnv nat "(string \<times> string) list"
  | EvPrepareImage nat ImageInterface nat "string option"
  | EvGetOrCreateContainer "string option"
  | EvPreRunHook nat "string option"
  | EvSleep int
  | EvBuild nat "string option"
  | EvLockStage string string "string + nat"
  | EvUnlockStage nat
  | EvGenerateStageUniqueID string "StageDescription list" "string \<times> int"
  | EvStoreImage nat string "string option"
  | EvGetStageDescription string string int "string + StageDescription option"
  | EvAtomicStoreStagesByDigestToCache string string "StageID list" "string option"
  | EvIntrospect nat "string option"
  | EvAddManagedImage string string "string option"
  | EvHeadCommit "string + string"
  | EvIsImageMetadataExist string string string string "string + bool"
  | EvPutImageMetadata string string string string "string option"
  | EvMarshalIndent ImagesReport string string "string + string"
  | EvWriteFile string string nat "string option"

record world =
  phase :: BuildPhase
  conveyor :: Conveyor
  stageObj :: "nat \<Rightarrow> Stage"
  imageObj :: "nat \<Rightarrow> StageImage"
  nextImage :: nat
  trace :: "event list"

definition emit :: "event \<Rightarrow> world \<Rightarrow> world" where
  "emit ev w = w\<lparr>trace := trace w @ [ev]\<rparr>"

text \<open>
  The environment answers the calls. An answer may depend on everything that happened so
  far (the world, with its trace) and on the arguments. A call changes nothing in the
  world but the trace: what a collaborator does to its own state (the storage, the
  container runtime) shows in its later answers only. \<^verbatim>\<open>image.BuildCacheVersion\<close>,
  \<^verbatim>\<open>werf.Version\<close> and \<^verbatim>\<open>util.Sha3_224Hash\<close> are declared outside the sources at
  hand and are parameters, as are the methods of \<^verbatim>\<open>StagesIterator\<close> and
  \<^verbatim>\<open>Image.GetStageID\<close>. So is what belongs to Go itself: \<open>Quote\<close> is the text that
  the verb \<^verbatim>\<open>%q\<close> prints for a string, \<open>TypeString\<close> the name of the dynamic type of an
  interface value, as the verb \<^verbatim>\<open>%T\<close> and the error of a failed type assertion print
  it, and \<open>RangeSeed\<close> the choices that decide in which order a \<^verbatim>\<open>range\<close> visits the
  entries of a map.
\<close>

record env =
  BuildCacheVersion :: string
  Version :: string
  GOOS :: string
  Sha3_224Hash :: "string list \<Rightarrow> string"
  Getenv :: "string \<Rightarrow> string"
  SscanfInt :: "string \<Rightarrow> int"
  GetPrevImage :: "world \<Rightarrow> Image \<Rightarrow> nat \<Rightarrow> ImageInterface"
  GetPrevBuiltImage :: "world \<Rightarrow> Image \<Rightarrow> nat \<Rightarrow> ImageInterface"
  GetStageID :: "world \<Rightarrow> Image \<Rightarrow> string"
  FetchDependencies :: "world \<Rightarrow> nat \<Rightarrow> string option"
  GetDependencies :: "world \<Rightarrow> nat \<Rightarrow> ImageInterface \<Rightarrow> ImageInterface \<Rightarrow> string + string"
  GetNextStageDependencies :: "world \<Rightarrow> nat \<Rightarrow> string + string"
  GetStagesByDigest :: "world \<Rightarrow> string \<Rightarrow> string \<Rightarrow> string + StageDescription list"
  SelectSuitableStage :: "world \<Rightarrow> nat \<Rightarrow> StageDescription list \<Rightarrow> string + StageDescription option"
  NewUUID :: "world \<Rightarrow> string"
  FetchBaseImage :: "world \<Rightarrow> Image \<Rightarrow> string option"
  FetchStage :: "world \<Rightarrow> nat option \<Rightarrow> string option"
  PrepareImage :: "world \<Rightarrow> nat \<Rightarrow> ImageInterface \<Rightarrow> nat \<Rightarrow> string option"
  GetOrCreateContainer :: "world \<Rightarrow> string option"
  PreRunHook :: "world \<Rightarrow> nat \<Rightarrow> string option"
  Build :: "world \<Rightarrow> nat \<Rightarrow> string option"
  LockStage :: "world \<Rightarrow> string \<Rightarrow> string \<Rightarrow> string + nat"
  GenerateStageUniqueID :: "world \<Rightarrow> string \<Rightarrow> StageDescription list \<Rightarrow> string \<times> int"
  StoreImage :: "world \<Rightarrow> nat \<Rightarrow> string option"
  GetStageDescription :: "world \<Rightarrow> string \<Rightarrow> string \<Rightarrow> int \<Rightarrow> string + StageDescription option"
  StagesStorageString :: string
  AtomicStoreStagesByDigestToCache :: "world \<Rightarrow> string \<Rightarrow> string \<Rightarrow> StageID list \<Rightarrow> string option"
  Introspect :: "world \<Rightarrow> nat \<Rightarrow> string option"
  AddManagedImage :: "world \<Rightarrow> string \<Rightarrow> string \<Rightarrow> string option"
  HeadCommit :: "world \<Rightarrow> string + string"
  IsImageMetadataExist :: "world \<Rightarrow> string \<Rightarrow> string \<Rightarrow> string \<Rightarrow> string \<Rightarrow> string + bool"
  PutImageMetadata :: "world \<Rightarrow> string \<Rightarrow> string \<Rightarrow> string \<Rightarrow> string \<Rightarrow> string option"
  MarshalIndent :: "ImagesReport \<Rightarrow> string \<Rightarrow> string \<Rightarrow> string + string"
  WriteFile :: "world \<Rightarrow> string \<Rightarrow> string \<Rightarrow> nat \<Rightarrow> string option"
  Quote :: "string \<Rightarrow> string"
  TypeString :: "ImageInterface \<Rightarrow> string"
  RangeSeed :: "world \<Rightarrow> nat list"

subsection \<open>calculateDigest\<close>

definition calculateDigest ::
  "env \<Rightarrow> world \<Rightarrow> string \<Rightarrow> string \<Rightarrow> nat option \<Rightarrow> (fault + string) \<times> world" where
  "calculateDigest e w stageName stageDependencies prevNonEmptyStage =
     (let checksumArgs = [BuildCacheVersion e, stageName, stageDependencies] in
      case prevNonEmptyStage of
        None \<Rightarrow> (Inr (Sha3_224Hash e checksumArgs), w)
      | Some p \<Rightarrow>
          (let r = GetNextStageDependencies e w p;
               w1 = emit (EvGetNextStageDependencies p r) w in
           case r of
             Inl err \<Rightarrow>
               (Inl (Error (''unable to get prev stage '' @ stName (stageObj w1 p) @
                   '' dependencies for the stage '' @ stageName @ '': '' @ err)), w1)
           | Inr prevStageDependencies \<Rightarrow>
               (Inr (Sha3_224Hash e
                  (checksumArgs @ [stDigest (stageObj w1 p), prevStageDependencies])), w1)))"

subsection \<open>The objects the build phase mutates\<close>

definition SetDigest :: "nat \<Rightarrow> string \<Rightarrow> world \<Rightarrow> world" where
  "SetDigest stg d w = w\<lparr>stageObj := (stageObj w)(stg := (stageObj w stg)\<lparr>stDigest := d\<rparr>)\<rparr>"

definition SetContentDigest :: "nat \<Rightarrow> string \<Rightarrow> world \<Rightarrow> world" where
  "SetContentDigest stg d w =
     w\<lparr>stageObj := (stageObj w)(stg := (stageObj w stg)\<lparr>stContentDigest := d\<rparr>)\<rparr>"

definition SetImage :: "nat \<Rightarrow> nat option \<Rightarrow> world \<Rightarrow> world" where
  "SetImage stg i w = w\<lparr>stageObj := (stageObj w)(stg := (stageObj w stg)\<lparr>stImage := i\<rparr>)\<rparr>"

definition SetStageDescription :: "nat \<Rightarrow> StageDescription option \<Rightarrow> world \<Rightarrow> world" where
  "SetStageDescription i d w =
     w\<lparr>imageObj := (imageObj w)(i := (imageObj w i)\<lparr>siStageDescription := d\<rparr>)\<rparr>"

definition SetName :: "nat \<Rightarrow> string \<Rightarrow> world \<Rightarrow> world" where
  "SetName i n w = w\<lparr>imageObj := (imageObj w)(i := (imageObj w i)\<lparr>siName := n\<rparr>)\<rparr>"

text \<open>
  Modelled from the spec: the conveyor's registry of stage images
  (\<^verbatim>\<open>GetStageImage\<close>, \<^verbatim>\<open>UnsetStageImage\<close>, \<^verbatim>\<open>SetStageImage\<close>,
  \<^verbatim>\<open>GetOrCreateStageImage\<close>) is not in the sources at hand. The spec: stage images
  are created via the conveyor's \<^verbatim>\<open>GetOrCreateStageImage(parent, name)\<close> factory,
  deduplicating by name; rename (unset + set) is the only legal identity mutation.
\<close>

definition GetStageImage :: "world \<Rightarrow> string \<Rightarrow> nat option" where
  "GetStageImage w name = stageImages (conveyor w) name"

definition UnsetStageImage :: "string \<Rightarrow> world \<Rightarrow> world" where
  "UnsetStageImage name w =
     w\<lparr>conveyor := (conveyor w)\<lparr>stageImages := (stageImages (conveyor w))(name := None)\<rparr>\<rparr>"

definition SetStageImage :: "nat \<Rightarrow> world \<Rightarrow> world" where
  "SetStageImage i w =
     w\<lparr>conveyor := (conveyor w)
        \<lparr>stageImages := (stageImages (conveyor w))(siName (imageObj w i) \<mapsto> i)\<rparr>\<rparr>"

definition GetOrCreateStageImage :: "nat option \<Rightarrow> string \<Rightarrow> world \<Rightarrow> nat \<times> world" where
  "GetOrCreateStageImage fromImage name w =
     (case GetStageImage w name of
        Some i \<Rightarrow> (i, w)
      | None \<Rightarrow>
          (let i = nextImage w;
               w1 = w\<lparr>imageObj := (imageObj w)
                        (i := \<lparr>siName = name, siFromImage = fromImage, siStageDescription = None\<rparr>),
                      nextImage := Suc i\<rparr>
           in (i, SetStageImage i w1)))"

text \<open>
  Modelled from the spec: \<^verbatim>\<open>Conveyor.GetStageDigestMutex\<close> is not in the sources at
  hand. The spec: it returns a mutex unique to that digest across all goroutines in this
  process. The mutex of a digest is locked when the digest is in \<open>lockedDigests\<close>. Locking a
  locked mutex waits for its release, which the handler alone never sees; unlocking an
  unlocked mutex is a fatal error of the Go runtime.
\<close>

definition MutexLock :: "string \<Rightarrow> world \<Rightarrow> (fault + unit) \<times> world" where
  "MutexLock d w =
     (if d \<in> lockedDigests (conveyor w) then (Inl (Blocked d), w)
      else (Inr (), emit (EvMutexLock d)
              (w\<lparr>conveyor := (conveyor w)\<lparr>lockedDigests := insert d (lockedDigests (conveyor w))\<rparr>\<rparr>)))"

definition MutexUnlock :: "string \<Rightarrow> world \<Rightarrow> (fault + unit) \<times> world" where
  "MutexUnlock d w =
     (if d \<in> lockedDigests (conveyor w)
      then (Inr (), emit (EvMutexUnlock d)
              (w\<lparr>conveyor := (conveyor w)\<lparr>lockedDigests := lockedDigests (conveyor w) - {d}\<rparr>\<rparr>))
      else (Inl (Panic ''sync: unlock of unlocked mutex''), w))"

text \<open>
  A deferred call runs when the function returns, whatever it returns, and also when it
  panics. The function's result stands unless the deferred call itself fails.
\<close>

definition deferred ::
  "(world \<Rightarrow> (fault + unit) \<times> world) \<Rightarrow> (fault + unit) \<times> world \<Rightarrow> (fault + unit) \<times> world" where
  "deferred d rw =
     (case d (snd rw) of
        (Inl f, w') \<Rightarrow> (Inl f, w')
      | (Inr u, w') \<Rightarrow> (fst rw, w'))"

definition wrapError :: "string \<Rightarrow> fault \<Rightarrow> fault" where
  "wrapError pre f =
     (case f of Error msg \<Rightarrow> Error (pre @ msg) | Panic m \<Rightarrow> Panic m | Blocked m \<Rightarrow> Blocked m)"

subsection \<open>ImageStageShouldBeIntrospected\<close>

fun ImageStageShouldBeIntrospected :: "IntrospectTarget list \<Rightarrow> string \<Rightarrow> string \<Rightarrow> bool" where
  "ImageStageShouldBeIntrospected [] imageName stageName = False"
| "ImageStageShouldBeIntrospected (s # targets) imageName stageName =
     (if (ImageName s = ''*'' \<or> ImageName s = imageName) \<and> StageName s = stageName then True
      else ImageStageShouldBeIntrospected targets imageName stageName)"

subsection \<open>NewBuildPhase, the report\<close>

definition NewBuildPhase :: "unit BuildPhaseOptions_scheme \<Rightarrow> BuildPhase" where
  "NewBuildPhase opts =
     \<lparr>options = opts,
      iterator = \<lparr>PrevNonEmptyStage = None, PrevBuiltStage = None\<rparr>,
      ShouldAddManagedImageRecord = False,
      report = \<lparr>Images = Map.empty\<rparr>,
      ReportPath = [],
      ReportFormat = []\<rparr>"

text \<open>The file mode \<^verbatim>\<open>0644\<close>, an octal numeral in Go.\<close>

definition mode0644 :: nat where
  "mode0644 = 6 * 8 ^ 2 + 4 * 8 + 4"

definition SetImageRecord :: "string \<Rightarrow> ReportImageRecord \<Rightarrow> world \<Rightarrow> world" where
  "SetImageRecord name imageRecord w =
     w\<lparr>phase := (phase w)\<lparr>report := (report (phase w))
        \<lparr>Images := (Images (report (phase w)))(name \<mapsto> imageRecord)\<rparr>\<rparr>\<rparr>"

definition ToJson :: "env \<Rightarrow> world \<Rightarrow> (string + string) \<times> world" where
  "ToJson e w =
     (let r = MarshalIndent e (report (phase w)) [] [CHR 0x09] in
      (r, emit (EvMarshalIndent (report (phase w)) [] [CHR 0x09] r) w))"

text \<open>
  The loop of \<^verbatim>\<open>createReport\<close> over the conveyor's images. The description is read
  through three pointers, each of which may be nil.
\<close>

fun createReport_images :: "Image list \<Rightarrow> world \<Rightarrow> (fault + unit) \<times> world" where
  "createReport_images [] w = (Inr (), w)"
| "createReport_images (img # imgs) w =
     (if isArtifact img then createReport_images imgs w
      else
        (case lastNonEmptyStage img of
           None \<Rightarrow> (Inl nilDereference, w)
         | Some stg \<Rightarrow>
             (case stImage (stageObj w stg) of
                None \<Rightarrow> (Inl nilDereference, w)
              | Some i \<Rightarrow>
                  (case siStageDescription (imageObj w i) of
                     None \<Rightarrow> (Inl nilDereference, w)
                   | Some desc \<Rightarrow>
                       createReport_images imgs
                         (SetImageRecord (imName img)
                            \<lparr>WerfImageName = InfoName (descInfo desc),
                             DockerRepo = Repository (descInfo desc),
                             DockerTag = Tag (descInfo desc),
                             DockerImageID = ID (descInfo desc)\<rparr> w)))))"

definition createReport :: "env \<Rightarrow> world \<Rightarrow> (fault + unit) \<times> world" where
  "createReport e w =
     (case createReport_images (images (conveyor w)) w of
        (Inl f, w1) \<Rightarrow> (Inl f, w1)
      | (Inr u, w1) \<Rightarrow>
          (case ToJson e w1 of
             (Inl err, w2) \<Rightarrow> (Inl (Error (''unable to prepare report json: '' @ err)), w2)
           | (Inr data, w2) \<Rightarrow>
               (if ReportPath (phase w2) \<noteq> [] \<and> ReportFormat (phase w2) = ReportJSON then
                  (let r = WriteFile e w2 (ReportPath (phase w2)) (data @ [CHR 0x0A]) mode0644;
                       w3 = emit (EvWriteFile (ReportPath (phase w2)) (data @ [CHR 0x0A]) mode0644 r) w2
                   in case r of
                        Some err \<Rightarrow>
                          (Inl (Error (''unable to write report to '' @ ReportPath (phase w2) @ '': '' @ err)), w3)
                      | None \<Rightarrow> (Inr (), w3))
                else (Inr (), w2))))"

definition AfterImages :: "env \<Rightarrow> world \<Rightarrow> (fault + unit) \<times> world" where
  "AfterImages e w = createReport e w"

subsection \<open>AfterImageStages\<close>

definition addManagedImage :: "env \<Rightarrow> world \<Rightarrow> Image \<Rightarrow> (fault + unit) \<times> world" where
  "addManagedImage e w img =
     (if ShouldAddManagedImageRecord (phase w) then
        (let r = AddManagedImage e w (projectName (conveyor w)) (imName img);
             w1 = emit (EvAddManagedImage (projectName (conveyor w)) (imName img) r) w
         in case r of
              Some err \<Rightarrow>
                (Inl (Error (''unable to add image '' @ Quote e (imName img) @
                   '' to the managed images of project '' @ Quote e (projectName (conveyor w)) @
                   '': '' @ err)), w1)
            | None \<Rightarrow> (Inr (), w1))
      else (Inr (), w))"

definition publishImageMetadata :: "env \<Rightarrow> world \<Rightarrow> Image \<Rightarrow> (fault + unit) \<times> world" where
  "publishImageMetadata e w img =
     (case localGitRepo (conveyor w) of
        None \<Rightarrow> (Inr (), w)
      | Some repo \<Rightarrow>
          (let r = HeadCommit e w; w1 = emit (EvHeadCommit r) w in
           case r of
             Inl err \<Rightarrow> (Inl (Error err), w1)
           | Inr headCommit \<Rightarrow>
               (let r2 = IsImageMetadataExist e w1 (projectName (conveyor w1)) (imName img)
                           headCommit (GetStageID e w1 img);
                    w2 = emit (EvIsImageMetadataExist (projectName (conveyor w1)) (imName img)
                           headCommit (GetStageID e w1 img) r2) w1
                in case r2 of
                     Inl err \<Rightarrow>
                       (Inl (Error (''unable to get image '' @ imName img @ '' metadata by commit '' @
                          headCommit @ '' and stage ID '' @ GetStageID e w1 img @ '': '' @ err)), w2)
                   | Inr exists \<Rightarrow>
                       (if \<not> exists then
                          (let r3 = PutImageMetadata e w2 (projectName (conveyor w2)) (imName img)
                                      headCommit (GetStageID e w2 img);
                               w3 = emit (EvPutImageMetadata (projectName (conveyor w2)) (imName img)
                                      headCommit (GetStageID e w2 img) r3) w2
                           in case r3 of Some err \<Rightarrow> (Inl (Error err), w3) | None \<Rightarrow> (Inr (), w3))
                        else (Inr (), w2)))))"

text \<open>
  \<^verbatim>\<open>AfterImageStages\<close> writes two fields of the image it is given; the image is
  returned with them. \<^verbatim>\<open>PrevNonEmptyStage\<close> is dereferenced without a check.
\<close>

definition AfterImageStages :: "env \<Rightarrow> world \<Rightarrow> Image \<Rightarrow> (fault + unit) \<times> Image \<times> world" where
  "AfterImageStages e w img =
     (let img1 = img\<lparr>lastNonEmptyStage := PrevNonEmptyStage (iterator (phase w))\<rparr> in
      case PrevNonEmptyStage (iterator (phase w)) of
        None \<Rightarrow> (Inl nilDereference, img1, w)
      | Some p \<Rightarrow>
          (let img2 = img1\<lparr>contentDigest := stContentDigest (stageObj w p)\<rparr> in
           if isArtifact img2 then (Inr (), img2, w)
           else
             (case addManagedImage e w img2 of
                (Inl f, w1) \<Rightarrow> (Inl f, img2, w1)
              | (Inr u, w1) \<Rightarrow>
                  (case publishImageMetadata e w1 img2 of
                     (Inl f, w2) \<Rightarrow> (Inl f, img2, w2)
                   | (Inr u2, w2) \<Rightarrow> (Inr (), img2, w2)))))"

subsection \<open>The diagnostic of the should-be-built mode\<close>

definition nl :: string where
  "nl = [CHR 0x0A]"

definition dq :: string where
  "dq = [CHR 0x22]"

definition sq :: string where
  "sq = [CHR 0x27]"

text \<open>The verb \<^verbatim>\<open>%d\<close> of a number that is not negative.\<close>

function showNat :: "nat \<Rightarrow> string" where
  "showNat n =
     (if n < 10 then [''0123456789'' ! n]
      else showNat (n div 10) @ [''0123456789'' ! (n mod 10)])"
  by pat_completeness auto
termination
  by (relation "measure id") auto

text \<open>
  What is written at the warning level is traced: \<^verbatim>\<open>LogF\<close> writes the formatted
  text, \<^verbatim>\<open>LogLn\<close> its argument and a line break.
\<close>

definition WarnLogF :: "string \<Rightarrow> world \<Rightarrow> world" where
  "WarnLogF text w = emit (EvWarn text) w"

definition WarnLogLn :: "string \<Rightarrow> world \<Rightarrow> world" where
  "WarnLogLn text w = emit (EvWarn (text @ nl)) w"

definition reasonNumberFunc :: "nat \<Rightarrow> string \<times> nat" where
  "reasonNumberFunc reasonNumber = (''('' @ showNat (reasonNumber + 1) @ '') '', reasonNumber + 1)"

definition reasonDockerfile :: string where
  "reasonDockerfile =
     ''Dockerfile has COPY or ADD instruction which uses non-permanent data that affects stage digest:'' @ nl @
     ''- .git directory which should be excluded with .dockerignore file (https://docs.docker.com/engine/reference/builder/#dockerignore-file)'' @ nl @
     ''- auto-generated file''"

definition reasonWerfYaml :: string where
  "reasonWerfYaml =
     ''werf.yaml has non-permanent data that affects stage digest:'' @ nl @
     ''- environment variable (e.g. {{ env '' @ dq @ ''JOB_ID'' @ dq @ '' }})'' @ nl @
     ''- dynamic go template function (e.g. one of sprig date functions http://masterminds.github.io/sprig/date.html)'' @ nl @
     ''- auto-generated file content (e.g. {{ .Files.Get '' @ dq @ ''hash_sum_of_something'' @ dq @ '' }})''"

definition hintCompareConfigs :: string where
  "hintCompareConfigs =
     ''Stage digest dependencies can be found here, https://werf.io/documentation/reference/stages_and_images.html#stage-dependencies.'' @ nl @
     nl @
     ''To quickly find the problem compare current and previous rendered werf configurations.'' @ nl @
     ''Get the path at the beginning of command output by the following prefix '' @ sq @
       ''Using werf config render file: '' @ sq @ ''.'' @ nl @
     ''E.g.:'' @ nl @
     nl @
     ''  diff /tmp/werf-config-render-502883762 /tmp/werf-config-render-837625028''"

definition reasonNotBuilt :: string where
  "reasonNotBuilt =
     ''Stages have not been built yet or stages have been removed:'' @ nl @
     ''- automatically with werf cleanup command'' @ nl @
     ''- manually with werf purge, werf stages purge or werf host purge commands''"

definition printShouldBeBuiltError :: "world \<Rightarrow> Image \<Rightarrow> nat \<Rightarrow> world" where
  "printShouldBeBuiltError w img stg =
     (let w1 = WarnLogF (stLogDetailedName (stageObj w stg) @ '' with digest '' @
                  stDigest (stageObj w stg) @ '' is not exist in stages storage'' @ nl) w;
          reasonNumber = 0;
          w2 = WarnLogLn [] w1;
          w3 = WarnLogLn ''There are some possible reasons:'' w2;
          w4 = WarnLogLn [] w3;
          (w5, reasonNumber1) =
            (if isDockerfileImage img then
               (let (p, n) = reasonNumberFunc reasonNumber
                in (WarnLogLn [] (WarnLogLn (p @ reasonDockerfile) w4), n))
             else (w4, reasonNumber));
          (p2, reasonNumber2) = reasonNumberFunc reasonNumber1;
          w6 = WarnLogLn [] (WarnLogLn (p2 @ reasonWerfYaml) w5);
          w7 = WarnLogLn [] (WarnLogLn hintCompareConfigs w6);
          (p3, reasonNumber3) = reasonNumberFunc reasonNumber2
      in WarnLogLn [] (WarnLogLn (p3 @ reasonNotBuilt) w7))"

subsection \<open>calculateStage\<close>

text \<open>
  A nil interface value is cast to the nil pointer; the type assertion on a value of
  another type panics with the runtime's conversion error.
\<close>

definition castToStageImage :: "env \<Rightarrow> ImageInterface \<Rightarrow> fault + nat option" where
  "castToStageImage e img =
     (case img of
        NilImage \<Rightarrow> Inr None
      | IsStageImage i \<Rightarrow> Inr i
      | OtherImage \<Rightarrow>
          Inl (Panic (''interface conversion: container_runtime.ImageInterface is '' @
             TypeString e img @ '', not *container_runtime.StageImage'')))"

text \<open>The last step of \<^verbatim>\<open>calculateStage\<close>: the content digest.\<close>

definition calculateStage_content :: "env \<Rightarrow> world \<Rightarrow> nat \<Rightarrow> (fault + unit) \<times> world" where
  "calculateStage_content e w stg =
     (case calculateDigest e w (stName (stageObj w stg) @ ''-content'') [] (Some stg) of
        (Inl f, w1) \<Rightarrow>
          (Inl (wrapError (''unable to calculate stage '' @ stName (stageObj w stg) @
              '' content digest: '') f), w1)
      | (Inr stageContentSig, w1) \<Rightarrow> (Inr (), SetContentDigest stg stageContentSig w1))"

text \<open>The steps of \<^verbatim>\<open>calculateStage\<close> once the mutex of the digest is locked.\<close>

definition calculateStage_locked ::
  "env \<Rightarrow> world \<Rightarrow> Image \<Rightarrow> nat \<Rightarrow> bool \<Rightarrow> string \<Rightarrow> (fault + unit) \<times> world" where
  "calculateStage_locked e w img stg shouldBeBuiltMode stageSig =
     (let r = GetStagesByDigest e w (stLogDetailedName (stageObj w stg)) stageSig;
          w1 = emit (EvGetStagesByDigest (stLogDetailedName (stageObj w stg)) stageSig r) w in
      case r of
        Inl err \<Rightarrow> (Inl (Error err), w1)
      | Inr stages \<Rightarrow>
          (let r2 = SelectSuitableStage e w1 stg stages;
               w2 = emit (EvSelectSuitableStage stg stages r2) w1 in
           case r2 of
             Inl err \<Rightarrow> (Inl (Error err), w2)
           | Inr (Some stageDesc) \<Rightarrow>
               (case castToStageImage e (GetPrevImage e w2 img stg) of
                  Inl f \<Rightarrow> (Inl f, w2)
                | Inr fromImage \<Rightarrow>
                    (let (i, w3) = GetOrCreateStageImage fromImage (InfoName (descInfo stageDesc)) w2;
                         w4 = SetStageDescription i (Some stageDesc) w3;
                         w5 = SetImage stg (Some i) w4
                     in calculateStage_content e w5 stg))
           | Inr None \<Rightarrow>
               (if shouldBeBuiltMode then
                  (Inl (Error ''stages required''), printShouldBeBuiltError w2 img stg)
                else
                  (case castToStageImage e (GetPrevImage e w2 img stg) of
                     Inl f \<Rightarrow> (Inl f, w2)
                   | Inr fromImage \<Rightarrow>
                       (let u = NewUUID e w2;
                            w3 = emit (EvNewUUID u) w2;
                            (i, w4) = GetOrCreateStageImage fromImage u w3;
                            w5 = SetImage stg (Some i) w4
                        in calculateStage_content e w5 stg)))))"

text \<open>
  The first steps of \<^verbatim>\<open>calculateStage\<close>: the dependencies, the digest, which is
  recorded on the stage, and the lock of the digest's mutex.
\<close>

definition calculateStage_digest ::
  "env \<Rightarrow> world \<Rightarrow> Image \<Rightarrow> nat \<Rightarrow> (fault + string) \<times> world" where
  "calculateStage_digest e w img stg =
     (let prevImage = GetPrevImage e w img stg;
          prevBuiltImage = GetPrevBuiltImage e w img stg;
          r = GetDependencies e w stg prevImage prevBuiltImage;
          w1 = emit (EvGetDependencies stg prevImage prevBuiltImage r) w in
      case r of
        Inl err \<Rightarrow> (Inl (Error err), w1)
      | Inr stageDependencies \<Rightarrow>
          (case calculateDigest e w1 (stName (stageObj w1 stg)) stageDependencies
                  (PrevNonEmptyStage (iterator (phase w1))) of
             (Inl f, w2) \<Rightarrow> (Inl f, w2)
           | (Inr stageSig, w2) \<Rightarrow>
               (let w3 = SetDigest stg stageSig w2 in
                case MutexLock (stDigest (stageObj w3 stg)) w3 of
                  (Inl f, w4) \<Rightarrow> (Inl f, w4)
                | (Inr u, w4) \<Rightarrow> (Inr stageSig, w4))))"

definition calculateStage ::
  "env \<Rightarrow> world \<Rightarrow> Image \<Rightarrow> nat \<Rightarrow> bool \<Rightarrow> (fault + unit) \<times> world" where
  "calculateStage e w img stg shouldBeBuiltMode =
     (case calculateStage_digest e w img stg of
        (Inl f, w4) \<Rightarrow> (Inl f, w4)
      | (Inr stageSig, w4) \<Rightarrow> calculateStage_locked e w4 img stg shouldBeBuiltMode stageSig)"

subsection \<open>Fetching the base image, preparing the instructions\<close>

definition fetchBaseImageForStage :: "env \<Rightarrow> world \<Rightarrow> Image \<Rightarrow> nat \<Rightarrow> (fault + unit) \<times> world" where
  "fetchBaseImageForStage e w img stg =
     (if stName (stageObj w stg) = ''from'' then
        (let r = FetchBaseImage e w img;
             w1 = emit (EvFetchBaseImage (imName img) r) w in
         case r of
           Some err \<Rightarrow>
             (case baseImage img of
                None \<Rightarrow> (Inl nilDereference, w1)
              | Some b \<Rightarrow>
                  (Inl (Error (''unable to fetch base image '' @ siName (imageObj w1 b) @
                     '' for stage '' @ stLogDetailedName (stageObj w1 stg) @ '': '' @ err)), w1))
         | None \<Rightarrow> (Inr (), w1))
      else if stName (stageObj w stg) = ''dockerfile'' then (Inr (), w)
      else
        (let r = FetchStage e w (PrevBuiltStage (iterator (phase w)));
             w1 = emit (EvFetchStage (PrevBuiltStage (iterator (phase w))) r) w in
         case r of Some err \<Rightarrow> (Inl (Error err), w1) | None \<Rightarrow> (Inr (), w1)))"

text \<open>
  A \<^verbatim>\<open>range\<close> over a map visits every entry once, in an order that the runtime
  chooses: each choice picks one of the entries that are left.
\<close>

definition pickEntry :: "nat list \<Rightarrow> nat \<Rightarrow> nat" where
  "pickEntry seed n = (case seed of [] \<Rightarrow> 0 | c # cs \<Rightarrow> c mod n)"

function rangeOrder :: "nat list \<Rightarrow> 'a list \<Rightarrow> 'a list" where
  "rangeOrder seed entries =
     (if entries = [] then []
      else
        (let k = pickEntry seed (length entries) in
         entries ! k # rangeOrder (tl seed) (take k entries @ drop (Suc k) entries)))"
  by pat_completeness auto
termination
proof (relation "measure (\<lambda>(seed, entries). length entries)")
  show "wf (measure (\<lambda>(seed, entries). length entries))" by simp
next
  fix seed :: "nat list" and entries :: "'a list" and k
  assume ne: "entries \<noteq> []" and k: "k = pickEntry seed (length entries)"
  from ne have "0 < length entries" by simp
  then have "k < length entries" unfolding k pickEntry_def by (cases seed) simp_all
  then show "((tl seed, take k entries @ drop (Suc k) entries), (seed, entries))
      \<in> measure (\<lambda>(seed, entries). length entries)" by simp
qed

text \<open>
  Modelled from the spec: the names of the service labels (constants of the package
  \<^verbatim>\<open>image\<close>) are not in the sources at hand; the spec lists them as stable wire
  identifiers. The source keeps the labels in a Go map; the list below holds the entries of
  the map literal, one for each name.
\<close>

definition serviceLabels :: "env \<Rightarrow> world \<Rightarrow> nat \<Rightarrow> nat \<Rightarrow> (string \<times> string) list" where
  "serviceLabels e w stg stageImage =
     [(''werf-docker-image-name'', siName (imageObj w stageImage)),
      (''werf'', projectName (conveyor w)),
      (''werf-version'', Version e),
      (''werf-cache-version'', BuildCacheVersion e),
      (''werf-image'', ''false''),
      (''werf-stage-digest'', stDigest (stageObj w stg)),
      (''werf-stage-content-digest'', stContentDigest (stageObj w stg))]"

text \<open>
  The switch of \<^verbatim>\<open>prepareStageInstructions\<close> on the type of the stage: the labels go
  to the build arguments of a dockerfile stage, one argument for each entry the
  \<^verbatim>\<open>range\<close> visits, and to the commit options of any other stage, as the map.
\<close>

definition prepareStageInstructions_labels :: "env \<Rightarrow> world \<Rightarrow> nat \<Rightarrow> nat \<Rightarrow> world" where
  "prepareStageInstructions_labels e w stg stageImage =
     (let labels = serviceLabels e w stg stageImage in
      if stIsDockerfileStage (stageObj w stg) then
        emit (EvAppendOnTerminateFunc stageImage)
          (emit (EvAppendBuildArgs stageImage
             (map (\<lambda>(key, val). ''--label='' @ key @ ''='' @ val)
                (rangeOrder (RangeSeed e w) labels))) w)
      else
        (let wl = emit (EvAddLabel stageImage (map_of labels)) w in
         if sshAuthSock (conveyor w) \<noteq> [] then
           (if GOOS e = ''darwin'' then
              emit (EvAddEnv stageImage [(''SSH_AUTH_SOCK'', ''/run/host-services/ssh-auth.sock'')])
                (emit (EvAddVolume stageImage
                   ''/run/host-services/ssh-auth.sock:/run/host-services/ssh-auth.sock'') wl)
            else
              emit (EvAddEnv stageImage [(''SSH_AUTH_SOCK'', ''/.werf/tmp/ssh-auth-sock'')])
                (emit (EvAddVolume stageImage
                   (sshAuthSock (conveyor w) @ '':/.werf/tmp/ssh-auth-sock'')) wl))
         else wl))"

definition prepareStageInstructions :: "env \<Rightarrow> world \<Rightarrow> Image \<Rightarrow> nat \<Rightarrow> (fault + unit) \<times> world" where
  "prepareStageInstructions e w img stg =
     (case stImage (stageObj w stg) of
        None \<Rightarrow> (Inl nilDereference, w)
      | Some stageImage \<Rightarrow>
          (let w1 = prepareStageInstructions_labels e w stg stageImage;
               prevBuiltImage = GetPrevBuiltImage e w1 img stg;
               r = PrepareImage e w1 stg prevBuiltImage stageImage;
               w2 = emit (EvPrepareImage stg prevBuiltImage stageImage r) w1
           in case r of
                Some err \<Rightarrow>
                  (Inl (Error (''error preparing stage '' @ stName (stageObj w2 stg) @ '': '' @ err)), w2)
              | None \<Rightarrow> (Inr (), w2)))"

subsection \<open>atomicBuildStageImage\<close>

text \<open>
  The loop over the candidates: \<^verbatim>\<open>stageIDs = append(stageIDs, *stageDesc.StageID)\<close>.
\<close>

fun appendStageIDs :: "StageID list \<Rightarrow> StageDescription list \<Rightarrow> fault + StageID list" where
  "appendStageIDs stageIDs [] = Inr stageIDs"
| "appendStageIDs stageIDs (stageDesc # stages) =
     (case descStageID stageDesc of
        None \<Rightarrow> Inl nilDereference
      | Some sid \<Rightarrow> appendStageIDs (stageIDs @ [sid]) stages)"

text \<open>The branch \<^verbatim>\<open>use newly built image\<close>.\<close>

definition atomicBuildStageImage_publish ::
  "env \<Rightarrow> world \<Rightarrow> Image \<Rightarrow> nat \<Rightarrow> nat \<Rightarrow> StageDescription list \<Rightarrow> (fault + unit) \<times> world" where
  "atomicBuildStageImage_publish e w img stg stageImage stages =
     (let g = GenerateStageUniqueID e w (stDigest (stageObj w stg)) stages;
          w1 = emit (EvGenerateStageUniqueID (stDigest (stageObj w stg)) stages g) w;
          newStageImageName = fst g;
          uniqueID = snd g in
      case GetStageImage w1 (siName (imageObj w1 stageImage)) of
        None \<Rightarrow> (Inl nilDereference, w1)
      | Some stageImageObj \<Rightarrow>
          (let w2 = UnsetStageImage (siName (imageObj w1 stageImageObj)) w1;
               w3 = SetName stageImageObj newStageImageName w2;
               w4 = SetStageImage stageImageObj w3;
               r = StoreImage e w4 stageImage;
               w5 = emit (EvStoreImage stageImage (siName (imageObj w4 stageImage)) r) w4 in
           case r of
             Some err \<Rightarrow>
               (Inl (Error (''unable to store stage '' @ stLogDetailedName (stageObj w5 stg) @
                  '' digest '' @ stDigest (stageObj w5 stg) @ '' image '' @
                  siName (imageObj w5 stageImage) @ '' into stages storage '' @
                  StagesStorageString e @ '': '' @ err)), w5)
           | None \<Rightarrow>
               (let r2 = GetStageDescription e w5 (projectName (conveyor w5))
                           (stDigest (stageObj w5 stg)) uniqueID;
                    w6 = emit (EvGetStageDescription (projectName (conveyor w5))
                           (stDigest (stageObj w5 stg)) uniqueID r2) w5 in
                case r2 of
                  Inl err \<Rightarrow>
                    (Inl (Error (''unable to get stage '' @ stLogDetailedName (stageObj w6 stg) @
                       '' digest '' @ stDigest (stageObj w6 stg) @ '' image '' @
                       siName (imageObj w6 stageImage) @ '' description from stages storage '' @
                       StagesStorageString e @
                       '' after stages has been stored into stages storage: '' @ err)), w6)
                | Inr desc \<Rightarrow>
                    (let w7 = SetStageDescription stageImageObj desc w6 in
                     case appendStageIDs [] stages of
                       Inl f \<Rightarrow> (Inl f, w7)
                     | Inr ids \<Rightarrow>
                         (case siStageDescription (imageObj w7 stageImage) of
                            None \<Rightarrow> (Inl nilDereference, w7)
                          | Some d \<Rightarrow>
                              (case descStageID d of
                                 None \<Rightarrow> (Inl nilDereference, w7)
                               | Some sid \<Rightarrow>
                                   (let stageIDs = ids @ [sid];
                                        r3 = AtomicStoreStagesByDigestToCache e w7
                                               (stName (stageObj w7 stg)) (stDigest (stageObj w7 stg)) stageIDs;
                                        w8 = emit (EvAtomicStoreStagesByDigestToCache
                                               (stName (stageObj w7 stg)) (stDigest (stageObj w7 stg))
                                               stageIDs r3) w7
                                    in case r3 of
                                         Some err \<Rightarrow> (Inl (Error err), w8)
                                       | None \<Rightarrow> (Inr (), w8))))))))"

text \<open>The branch that discards the newly built image.\<close>

definition atomicBuildStageImage_discard ::
  "env \<Rightarrow> world \<Rightarrow> Image \<Rightarrow> nat \<Rightarrow> StageDescription \<Rightarrow> (fault + unit) \<times> world" where
  "atomicBuildStageImage_discard e w img stg stageDesc =
     (case GetPrevImage e w img stg of
        OtherImage \<Rightarrow>
          (Inl (Panic (''runtime error: unexpected type '' @ TypeString e (GetPrevImage e w img stg))), w)
      | IsStageImage fromImage \<Rightarrow>
          (let (i, w1) = GetOrCreateStageImage fromImage (InfoName (descInfo stageDesc)) w;
               w2 = SetStageDescription i (Some stageDesc) w1
           in (Inr (), SetImage stg (Some i) w2))
      | NilImage \<Rightarrow>
          (let (i, w1) = GetOrCreateStageImage None (InfoName (descInfo stageDesc)) w;
               w2 = SetStageDescription i (Some stageDesc) w1
           in (Inr (), SetImage stg (Some i) w2)))"

text \<open>What \<^verbatim>\<open>atomicBuildStageImage\<close> does while it holds the lock of the storage.\<close>

definition atomicBuildStageImage_locked ::
  "env \<Rightarrow> world \<Rightarrow> Image \<Rightarrow> nat \<Rightarrow> nat \<Rightarrow> (fault + unit) \<times> world" where
  "atomicBuildStageImage_locked e w img stg stageImage =
     (let r = GetStagesByDigest e w (stLogDetailedName (stageObj w stg)) (stDigest (stageObj w stg));
          w1 = emit (EvGetStagesByDigest (stLogDetailedName (stageObj w stg))
                 (stDigest (stageObj w stg)) r) w in
      case r of
        Inl err \<Rightarrow> (Inl (Error err), w1)
      | Inr stages \<Rightarrow>
          (let r2 = SelectSuitableStage e w1 stg stages;
               w2 = emit (EvSelectSuitableStage stg stages r2) w1 in
           case r2 of
             Inl err \<Rightarrow> (Inl (Error err), w2)
           | Inr (Some stageDesc) \<Rightarrow> atomicBuildStageImage_discard e w2 img stg stageDesc
           | Inr None \<Rightarrow> atomicBuildStageImage_publish e w2 img stg stageImage stages))"

definition testSleep :: "env \<Rightarrow> string \<Rightarrow> world \<Rightarrow> world" where
  "testSleep e name w =
     (let v = Getenv e name in if v \<noteq> [] then emit (EvSleep (SscanfInt e v)) w else w)"

text \<open>The environment variables of the tests of the atomic build.\<close>

definition beforeBuild :: string where
  "beforeBuild = ''WERF_TEST_ATOMIC_STAGE_BUILD__SLEEP_SECONDS_BEFORE_STAGE_BUILD''"

definition beforeSave :: string where
  "beforeSave = ''WERF_TEST_ATOMIC_STAGE_BUILD__SLEEP_SECONDS_BEFORE_STAGE_SAVE''"

text \<open>
  The steps of \<^verbatim>\<open>atomicBuildStageImage\<close> up to the lock of the storage: the build,
  between the two sleeps of the tests, and \<^verbatim>\<open>LockStage\<close>. The result is the stage
  image that was built and the lock.
\<close>

definition atomicBuildStageImage_build ::
  "env \<Rightarrow> world \<Rightarrow> Image \<Rightarrow> nat \<Rightarrow> (fault + nat \<times> nat) \<times> world" where
  "atomicBuildStageImage_build e w img stg =
     (let w1 = testSleep e beforeBuild w in
      case stImage (stageObj w stg) of
        None \<Rightarrow> (Inl nilDereference, w1)
      | Some stageImage \<Rightarrow>
          (let r = Build e w1 stageImage;
               w2 = emit (EvBuild stageImage r) w1 in
           case r of
             Some err \<Rightarrow>
               (Inl (Error (''failed to build image for stage '' @ stName (stageObj w2 stg) @
                  '' with digest '' @ stDigest (stageObj w2 stg) @ '': '' @ err)), w2)
           | None \<Rightarrow>
               (let w3 = testSleep e beforeSave w2;
                    r2 = LockStage e w3 (projectName (conveyor w3)) (stDigest (stageObj w3 stg));
                    w4 = emit (EvLockStage (projectName (conveyor w3)) (stDigest (stageObj w3 stg)) r2) w3 in
                case r2 of
                  Inl err \<Rightarrow>
                    (Inl (Error (''unable to lock project '' @ projectName (conveyor w4) @
                       '' digest '' @ stDigest (stageObj w4 stg) @ '': '' @ err)), w4)
                | Inr lock \<Rightarrow> (Inr (stageImage, lock), w4))))"

text \<open>The unlock of the storage is deferred as soon as the lock is held.\<close>

definition atomicBuildStageImage :: "env \<Rightarrow> world \<Rightarrow> Image \<Rightarrow> nat \<Rightarrow> (fault + unit) \<times> world" where
  "atomicBuildStageImage e w img stg =
     (case atomicBuildStageImage_build e w img stg of
        (Inl f, w4) \<Rightarrow> (Inl f, w4)
      | (Inr (stageImage, lock), w4) \<Rightarrow>
          deferred (\<lambda>wd. (Inr (), emit (EvUnlockStage lock) wd))
            (atomicBuildStageImage_locked e w4 img stg stageImage))"

subsection \<open>buildStage and the stage handler\<close>

text \<open>
  The functions that only write to the log (\<^verbatim>\<open>logImageInfo\<close>,
  \<^verbatim>\<open>logImageCommands\<close>) change nothing; what is kept of them is where they
  dereference a pointer that may be nil.
\<close>

definition getPrevNonEmptyStageImageSize :: "world \<Rightarrow> fault + int" where
  "getPrevNonEmptyStageImageSize w =
     (case PrevNonEmptyStage (iterator (phase w)) of
        None \<Rightarrow> Inr 0
      | Some p \<Rightarrow>
          (case stImage (stageObj w p) of
             None \<Rightarrow> Inl nilDereference
           | Some i \<Rightarrow>
               (case siStageDescription (imageObj w i) of
                  None \<Rightarrow> Inr 0
                | Some d \<Rightarrow> Inr (Size (descInfo d)))))"

definition logImageCommands :: "world \<Rightarrow> nat option \<Rightarrow> fault option" where
  "logImageCommands w img = (case img of None \<Rightarrow> Some nilDereference | Some i \<Rightarrow> None)"

definition logImageInfo :: "world \<Rightarrow> nat option \<Rightarrow> fault + int \<Rightarrow> bool \<Rightarrow> fault option" where
  "logImageInfo w img prevStageImageSize isUsingCache =
     (case prevStageImageSize of
        Inl f \<Rightarrow> Some f
      | Inr prevSize \<Rightarrow>
          (case img of
             None \<Rightarrow> Some nilDereference
           | Some i \<Rightarrow>
               (case siStageDescription (imageObj w i) of
                  None \<Rightarrow> Some nilDereference
                | Some d \<Rightarrow> None)))"

definition introspectStage :: "env \<Rightarrow> world \<Rightarrow> nat \<Rightarrow> (fault + unit) \<times> world" where
  "introspectStage e w s =
     (case stImage (stageObj w s) of
        None \<Rightarrow> (Inl nilDereference, w)
      | Some i \<Rightarrow>
          (let r = Introspect e w i; w1 = emit (EvIntrospect i r) w in
           case r of
             Some err \<Rightarrow> (Inl (Error (''introspect error failed: '' @ err)), w1)
           | None \<Rightarrow> (Inr (), w1)))"

text \<open>
  \<^verbatim>\<open>buildStage\<close> runs the pre-run hook and the atomic build inside a log process
  whose info section is written when the process ends, with the error of the process.
\<close>

definition buildStage :: "env \<Rightarrow> world \<Rightarrow> Image \<Rightarrow> nat \<Rightarrow> (fault + unit) \<times> world" where
  "buildStage e w img stg =
     (let rc = (if \<not> isDockerfileImage img then GetOrCreateContainer e w else None);
          w0 = (if \<not> isDockerfileImage img then emit (EvGetOrCreateContainer rc) w else w) in
      case rc of
        Some err \<Rightarrow> (Inl (Error (''get or create stapel container failed: '' @ err)), w0)
      | None \<Rightarrow>
          (let rh = PreRunHook e w0 stg;
               w1 = emit (EvPreRunHook stg rh) w0;
               body =
                 (case rh of
                    Some err \<Rightarrow>
                      (Inl (Error (stLogDetailedName (stageObj w1 stg) @ '' preRunHook failed: '' @ err)), w1)
                  | None \<Rightarrow> atomicBuildStageImage e w1 img stg) in
           case body of
             (Inl (Error err), w2) \<Rightarrow>
               (case logImageCommands w2 (stImage (stageObj w2 stg)) of
                  Some f \<Rightarrow> (Inl f, w2)
                | None \<Rightarrow> (Inl (Error err), w2))
           | (Inl (Panic m), w2) \<Rightarrow> (Inl (Panic m), w2)
           | (Inl (Blocked m), w2) \<Rightarrow> (Inl (Blocked m), w2)
           | (Inr u, w2) \<Rightarrow>
               (case logImageInfo w2 (stImage (stageObj w2 stg)) (getPrevNonEmptyStageImageSize w2) False of
                  Some f \<Rightarrow> (Inl f, w2)
                | None \<Rightarrow>
                    (if ImageStageShouldBeIntrospected (Targets (options (phase w2))) (imName img)
                          (stName (stageObj w2 stg))
                     then introspectStage e w2 stg
                     else (Inr (), w2)))))"

text \<open>
  The checks of \<^verbatim>\<open>onImageStage\<close> on the iterator, for a stage other than
  \<^verbatim>\<open>from\<close> and \<^verbatim>\<open>dockerfile\<close>: each one panics.
\<close>

definition checkPrevStages :: "env \<Rightarrow> world \<Rightarrow> Image \<Rightarrow> nat \<Rightarrow> fault option" where
  "checkPrevStages e w img stg =
     (if stName (stageObj w stg) \<noteq> ''from'' \<and> stName (stageObj w stg) \<noteq> ''dockerfile'' then
        (case PrevNonEmptyStage (iterator (phase w)) of
           None \<Rightarrow>
             Some (Panic (''expected PrevNonEmptyStage to be set for image '' @ Quote e (imName img) @
                '' stage '' @ stName (stageObj w stg)))
         | Some prevNonEmpty \<Rightarrow>
             (case PrevBuiltStage (iterator (phase w)) of
                None \<Rightarrow>
                  Some (Panic (''expected PrevBuiltStage to be set for image '' @ Quote e (imName img) @
                     '' stage '' @ stName (stageObj w stg)))
              | Some prevBuilt \<Rightarrow>
                  (if prevBuilt \<noteq> prevNonEmpty then
                     Some (Panic (''expected PrevBuiltStage ('' @
                        Quote e (stLogDetailedName (stageObj w prevBuilt)) @
                        '') to equal PrevNonEmptyStage ('' @
                        Quote e (stLogDetailedName (stageObj w prevNonEmpty)) @
                        '') for image '' @ Quote e (imName img) @
                        '' stage '' @ stName (stageObj w stg)))
                   else None)))
      else None)"

text \<open>
  The handler after \<^verbatim>\<open>calculateStage\<close> has returned nil, when the mode is not
  \<^verbatim>\<open>ShouldBeBuiltMode\<close>: the body that the deferred unlock encloses.
\<close>

definition onImageStage_calculated :: "env \<Rightarrow> world \<Rightarrow> Image \<Rightarrow> nat \<Rightarrow> (fault + unit) \<times> world" where
  "onImageStage_calculated e w img stg =
     (case stImage (stageObj w stg) of
        None \<Rightarrow> (Inl nilDereference, w)
      | Some i \<Rightarrow>
          (if siStageDescription (imageObj w i) \<noteq> None then
             (case logImageInfo w (stImage (stageObj w stg)) (getPrevNonEmptyStageImageSize w) True of
                Some f \<Rightarrow> (Inl f, w)
              | None \<Rightarrow>
                  (if ImageStageShouldBeIntrospected (Targets (options (phase w))) (imName img)
                        (stName (stageObj w stg))
                   then introspectStage e w stg
                   else (Inr (), w)))
           else
             (case fetchBaseImageForStage e w img stg of
                (Inl f, w1) \<Rightarrow> (Inl f, w1)
              | (Inr u1, w1) \<Rightarrow>
                  (case prepareStageInstructions e w1 img stg of
                     (Inl f, w2) \<Rightarrow> (Inl f, w2)
                   | (Inr u2, w2) \<Rightarrow>
                       (case buildStage e w2 img stg of
                          (Inl f, w3) \<Rightarrow> (Inl f, w3)
                        | (Inr u3, w3) \<Rightarrow>
                            (case stImage (stageObj w3 stg) of
                               None \<Rightarrow> (Inl nilDereference, w3)
                             | Some j \<Rightarrow>
                                 (if siStageDescription (imageObj w3 j) = None then
                                    (Inl (Panic (''expected stage '' @ stName (stageObj w3 stg) @
                                        '' image '' @ Quote e (imName img) @
                                        '' built image info (image name = '' @ siName (imageObj w3 j) @
                                        '') to be set!'')), w3)
                                  else
                                    (Inr (), w3\<lparr>phase := (phase w3)
                                               \<lparr>ShouldAddManagedImageRecord := True\<rparr>\<rparr>))))))))"

text \<open>
  The handler. The unlock of the digest's mutex is deferred after \<^verbatim>\<open>calculateStage\<close>
  has returned nil; the mutex is the one of the digest the stage has at that moment.
\<close>

definition onImageStage :: "env \<Rightarrow> world \<Rightarrow> Image \<Rightarrow> nat \<Rightarrow> bool \<Rightarrow> (fault + unit) \<times> world" where
  "onImageStage e w img stg isEmpty =
     (if isEmpty then (Inr (), w)
      else
        (let r = FetchDependencies e w stg;
             w1 = emit (EvFetchDependencies stg r) w in
         case r of
           Some err \<Rightarrow>
             (Inl (Error (''unable to fetch dependencies for stage '' @
                stLogDetailedName (stageObj w1 stg) @ '': '' @ err)), w1)
         | None \<Rightarrow>
             (if ShouldBeBuiltMode (options (phase w1)) then
                (case calculateStage e w1 img stg True of
                   (Inl err, w2) \<Rightarrow> (Inl err, w2)
                 | (Inr u, w2) \<Rightarrow> deferred (MutexUnlock (stDigest (stageObj w2 stg))) (Inr (), w2))
              else
                (case checkPrevStages e w1 img stg of
                   Some f \<Rightarrow> (Inl f, w1)
                 | None \<Rightarrow>
                     (case calculateStage e w1 img stg False of
                        (Inl err, w2) \<Rightarrow> (Inl err, w2)
                      | (Inr u, w2) \<Rightarrow>
                          deferred (MutexUnlock (stDigest (stageObj w2 stg)))
                            (onImageStage_calculated e w2 img stg))))))"

section \<open>The retry loops of the docker client\<close>

text \<open>
  \<^verbatim>\<open>strings.Contains\<close>: the second string occurs in the first one.
\<close>

fun Contains :: "string \<Rightarrow> string \<Rightarrow> bool" where
  "Contains [] substr = (substr = [])"
| "Contains (c # s) substr = (prefix substr (c # s) \<or> Contains s substr)"

text \<open>
  \<^verbatim>\<open>rand.Intn(n)\<close> returns a number that is at least 0 and less than \<open>n\<close>, for a
  positive \<open>n\<close>; which one is decided by the generator's draw.
\<close>

definition Intn :: "int \<Rightarrow> nat \<Rightarrow> int" where
  "Intn n draw = int draw mod n"

datatype cli_event =
    CliCall nat "string option"
  | CliRetryMessage int int int
  | CliSleep int

definition cliPullMaxAttempts :: int where
  "cliPullMaxAttempts = 5"

definition cliPushMaxAttempts :: int where
  "cliPushMaxAttempts = 10"

definition pullSpecificErrors :: "string list" where
  "pullSpecificErrors =
     [''Client.Timeout exceeded while awaiting headers'',
      ''TLS handshake timeout'',
      ''i/o timeout'',
      ''504 Gateway Time-out'',
      ''504 Gateway Timeout'',
      ''Internal Server Error'']"

definition pushSpecificErrors :: "string list" where
  "pushSpecificErrors =
     [''Client.Timeout exceeded while awaiting headers'',
      ''TLS handshake timeout'',
      ''i/o timeout'',
      ''Only schema version 2 is supported'',
      ''504 Gateway Time-out'',
      ''504 Gateway Timeout'',
      ''Internal Server Error'']"

text \<open>
  The loop from the label \<^verbatim>\<open>tryPull\<close>. \<open>doCliPull k\<close> is the result of the call of
  \<^verbatim>\<open>doCliPull\<close> made after \<open>k\<close> retries (\<open>None\<close> is nil), \<open>draw k\<close> the draw of the
  random generator for the retry after it. The inner loop over the specific errors
  leaves at the first one the message contains.
\<close>

function tryPull ::
  "(nat \<Rightarrow> string option) \<Rightarrow> (nat \<Rightarrow> nat) \<Rightarrow> int \<Rightarrow> nat \<Rightarrow> cli_event list \<Rightarrow>
   string option \<times> cli_event list" where
  "tryPull doCliPull draw attempt k evs =
     (case doCliPull k of
        None \<Rightarrow> (None, evs @ [CliCall k None])
      | Some err \<Rightarrow>
          (if attempt < cliPullMaxAttempts \<and> list_ex (Contains err) pullSpecificErrors then
             (let attempt' = attempt + 1;
                  seconds = Intn (30 - 15) (draw k) + 15
              in tryPull doCliPull draw attempt' (Suc k)
                   (evs @ [CliCall k (Some err),
                           CliRetryMessage seconds attempt' cliPullMaxAttempts,
                           CliSleep seconds]))
           else (Some err, evs @ [CliCall k (Some err)])))"
  by pat_completeness auto
termination
  by (relation "measure (\<lambda>(doCliPull, draw, attempt, k, evs). nat (cliPullMaxAttempts - attempt))") auto

definition doCliPullWithRetries ::
  "(nat \<Rightarrow> string option) \<Rightarrow> (nat \<Rightarrow> nat) \<Rightarrow> string option \<times> cli_event list" where
  "doCliPullWithRetries doCliPull draw = tryPull doCliPull draw 0 0 []"

function tryPush ::
  "(nat \<Rightarrow> string option) \<Rightarrow> (nat \<Rightarrow> nat) \<Rightarrow> int \<Rightarrow> nat \<Rightarrow> cli_event list \<Rightarrow>
   string option \<times> cli_event list" where
  "tryPush doCliPush draw attempt k evs =
     (case doCliPush k of
        None \<Rightarrow> (None, evs @ [CliCall k None])
      | Some err \<Rightarrow>
          (if attempt < cliPushMaxAttempts \<and> list_ex (Contains err) pushSpecificErrors then
             (let attempt' = attempt + 1;
                  seconds = Intn (30 - 15) (draw k) + 15
              in tryPush doCliPush draw attempt' (Suc k)
                   (evs @ [CliCall k (Some err),
                           CliRetryMessage seconds attempt' cliPushMaxAttempts,
                           CliSleep seconds]))
           else (Some err, evs @ [CliCall k (Some err)])))"
  by pat_completeness auto
termination
  by (relation "measure (\<lambda>(doCliPush, draw, attempt, k, evs). nat (cliPushMaxAttempts - attempt))") auto

definition doCliPushWithRetries ::
  "(nat \<Rightarrow> string option) \<Rightarrow> (nat \<Rightarrow> nat) \<Rightarrow> string option \<times> cli_event list" where
  "doCliPushWithRetries doCliPush draw = tryPush doCliPush draw 0 0 []"

section \<open>What the properties are stated with\<close>

subsection \<open>The spec's words\<close>

text \<open>
  The digest as the spec words it: the hash of the build-cache version, the stage name,
  the stage's dependencies and, when there is a previous non-empty stage, that stage's
  digest and its dependencies for the next stage, in this order.
\<close>

definition specDigest ::
  "(string list \<Rightarrow> string) \<Rightarrow> string \<Rightarrow> string \<Rightarrow> string \<Rightarrow> (string \<times> string) option \<Rightarrow> string" where
  "specDigest hash version stageName stageDeps prev =
     hash ([version, stageName, stageDeps] @
       (case prev of None \<Rightarrow> [] | Some (prevDigest, prevNextDeps) \<Rightarrow> [prevDigest, prevNextDeps]))"

text \<open>
  The diagnostic as the spec words it: a first line that names the stage and its digest,
  then the possible reasons, numbered from 1, the reason about the Dockerfile only for a
  Dockerfile image.
\<close>

definition diagnosticLines :: "bool \<Rightarrow> string \<Rightarrow> string \<Rightarrow> string list" where
  "diagnosticLines dockerfileImage stageName digest =
     [stageName @ '' with digest '' @ digest @ '' is not exist in stages storage'' @ nl,
      nl, ''There are some possible reasons:'' @ nl, nl] @
     (if dockerfileImage then
        [''(1) '' @ reasonDockerfile @ nl, nl,
         ''(2) '' @ reasonWerfYaml @ nl, nl,
         hintCompareConfigs @ nl, nl,
         ''(3) '' @ reasonNotBuilt @ nl, nl]
      else
        [''(1) '' @ reasonWerfYaml @ nl, nl,
         hintCompareConfigs @ nl, nl,
         ''(2) '' @ reasonNotBuilt @ nl, nl])"

text \<open>The names of the images that are not artifacts.\<close>

definition nonArtifactNames :: "Image list \<Rightarrow> string set" where
  "nonArtifactNames imgs = {imName img |img. img \<in> set imgs \<and> \<not> isArtifact img}"

text \<open>What a sleep of the tests adds to the trace.\<close>

definition testSleepEvents :: "env \<Rightarrow> string \<Rightarrow> event list" where
  "testSleepEvents e name =
     (if Getenv e name \<noteq> [] then [EvSleep (SscanfInt e (Getenv e name))] else [])"

subsection \<open>Classes of events\<close>

fun isImageMetadataEvent :: "event \<Rightarrow> bool" where
  "isImageMetadataEvent (EvHeadCommit r) = True"
| "isImageMetadataEvent (EvIsImageMetadataExist p n c s r) = True"
| "isImageMetadataEvent (EvPutImageMetadata p n c s r) = True"
| "isImageMetadataEvent ev = False"

fun isPutImageMetadata :: "event \<Rightarrow> bool" where
  "isPutImageMetadata (EvPutImageMetadata p n c s r) = True"
| "isPutImageMetadata ev = False"

fun reportsMetadataAbsent :: "event \<Rightarrow> bool" where
  "reportsMetadataAbsent (EvIsImageMetadataExist p n c s r) = (r = Inr False)"
| "reportsMetadataAbsent ev = False"

fun isWriteFile :: "event \<Rightarrow> bool" where
  "isWriteFile (EvWriteFile path content perm r) = True"
| "isWriteFile ev = False"

fun isFreshImageOrBuild :: "event \<Rightarrow> bool" where
  "isFreshImageOrBuild (EvNewUUID u) = True"
| "isFreshImageOrBuild (EvBuild i r) = True"
| "isFreshImageOrBuild ev = False"

fun beforeStorageQuery :: "event \<Rightarrow> bool" where
  "beforeStorageQuery (EvFetchDependencies stg r) = True"
| "beforeStorageQuery (EvGetDependencies stg i j r) = True"
| "beforeStorageQuery (EvGetNextStageDependencies stg r) = True"
| "beforeStorageQuery (EvMutexLock d) = True"
| "beforeStorageQuery ev = False"

fun isMutexUnlock :: "event \<Rightarrow> bool" where
  "isMutexUnlock (EvMutexUnlock d) = True"
| "isMutexUnlock ev = False"

fun beforeStorageLock :: "event \<Rightarrow> bool" where
  "beforeStorageLock (EvSleep n) = True"
| "beforeStorageLock (EvBuild i r) = True"
| "beforeStorageLock (EvLockStage p d r) = True"
| "beforeStorageLock ev = False"

fun isPublishEvent :: "event \<Rightarrow> bool" where
  "isPublishEvent (EvGenerateStageUniqueID d stages g) = True"
| "isPublishEvent (EvStoreImage i n r) = True"
| "isPublishEvent (EvGetStageDescription p d u r) = True"
| "isPublishEvent (EvAtomicStoreStagesByDigestToCache n d ids r) = True"
| "isPublishEvent ev = False"

fun isCliSleep :: "cli_event \<Rightarrow> bool" where
  "isCliSleep (CliSleep s) = True"
| "isCliSleep ev = False"

subsection \<open>The report settings of a phase\<close>

text \<open>
  The two fields that \<^verbatim>\<open>createReport\<close> reads, the phase's own, and the two fields of
  the options that configure the report.
\<close>

definition reportSettings :: "world \<Rightarrow> string \<times> string \<times> string \<times> string" where
  "reportSettings w =
     (ReportPath (phase w), ReportFormat (phase w),
      optReportPath (options (phase w)), optReportFormat (options (phase w)))"

subsection \<open>Concrete environments and worlds\<close>

text \<open>
  An environment in which every call succeeds and the storage is empty, and a world with
  one kind of stage; the hash is replaced by concatenation, which keeps every input
  visible in the result.
\<close>

definition env0 :: env where
  "env0 =
     \<lparr>BuildCacheVersion = ''1.2'',
      Version = ''v1.2.0'',
      GOOS = ''linux'',
      Sha3_224Hash = concat,
      Getenv = (\<lambda>name. []),
      SscanfInt = (\<lambda>v. 0),
      GetPrevImage = (\<lambda>w img stg. NilImage),
      GetPrevBuiltImage = (\<lambda>w img stg. NilImage),
      GetStageID = (\<lambda>w img. ''id-1''),
      FetchDependencies = (\<lambda>w stg. None),
      GetDependencies = (\<lambda>w stg prevImage prevBuiltImage. Inr ''deps''),
      GetNextStageDependencies = (\<lambda>w stg. Inr ''next''),
      GetStagesByDigest = (\<lambda>w name digest. Inr []),
      SelectSuitableStage = (\<lambda>w stg stages. Inr None),
      NewUUID = (\<lambda>w. ''uuid-1''),
      FetchBaseImage = (\<lambda>w img. None),
      FetchStage = (\<lambda>w stg. None),
      PrepareImage = (\<lambda>w stg prevBuiltImage stageImage. None),
      GetOrCreateContainer = (\<lambda>w. None),
      PreRunHook = (\<lambda>w stg. None),
      Build = (\<lambda>w stageImage. None),
      LockStage = (\<lambda>w project digest. Inr 7),
      GenerateStageUniqueID = (\<lambda>w digest stages. (''repo:new'', 42)),
      StoreImage = (\<lambda>w stageImage. None),
      GetStageDescription = (\<lambda>w project digest uniqueID. Inr None),
      StagesStorageString = '':local'',
      AtomicStoreStagesByDigestToCache = (\<lambda>w name digest stageIDs. None),
      Introspect = (\<lambda>w stageImage. None),
      AddManagedImage = (\<lambda>w project name. None),
      HeadCommit = (\<lambda>w. Inr ''c0ffee''),
      IsImageMetadataExist = (\<lambda>w project name commit stageID. Inr False),
      PutImageMetadata = (\<lambda>w project name commit stageID. None),
      MarshalIndent = (\<lambda>rep pre indent. Inr ''{}''),
      WriteFile = (\<lambda>w path data perm. None),
      Quote = (\<lambda>s. [CHR 0x22] @ s @ [CHR 0x22]),
      TypeString = (\<lambda>i. ''*container_runtime.DockerfileImage''),
      RangeSeed = (\<lambda>w. [])\<rparr>"

definition stage0 :: Stage where
  "stage0 =
     \<lparr>stName = ''from'', stLogDetailedName = ''stage app/from'', stIsDockerfileStage = False,
      stDigest = [], stContentDigest = [], stImage = None\<rparr>"

definition stageImage0 :: StageImage where
  "stageImage0 = \<lparr>siName = ''placeholder'', siFromImage = None, siStageDescription = None\<rparr>"

definition options0 :: "unit BuildPhaseOptions_scheme" where
  "options0 =
     \<lparr>Targets = [], optReportPath = ''report.json'', optReportFormat = ''json'', DryRun = False,
      ShouldBeBuiltMode = False\<rparr>"

definition image0 :: Image where
  "image0 =
     \<lparr>imName = ''app'', imLogName = ''app'', imLogDetailedName = ''image app'', isArtifact = False,
      isDockerfileImage = False, baseImage = None, lastNonEmptyStage = None, contentDigest = []\<rparr>"

definition world0 :: world where
  "world0 =
     \<lparr>phase = NewBuildPhase options0,
      conveyor =
        \<lparr>images = [], stageImages = Map.empty, lockedDigests = {}, projectName = ''proj'',
         sshAuthSock = [], Parallel = False, localGitRepo = None\<rparr>,
      stageObj = (\<lambda>a. stage0),
      imageObj = (\<lambda>a. stageImage0),
      nextImage = 0,
      trace = []\<rparr>"

text \<open>
  Worlds for the report and for the image metadata: an image whose last stage is built
  beside an artifact, with the report path set on the phase; a conveyor without and with
  a local git repository.
\<close>

definition stage_built :: Stage where
  "stage_built = stage0\<lparr>stName := ''install'', stImage := Some 2\<rparr>"

definition description1 :: StageDescription where
  "description1 =
     \<lparr>descStageID = Some \<lparr>Digest = ''d1'', UniqueID = 1\<rparr>,
      descInfo = \<lparr>InfoName = ''repo:d1-1'', Repository = ''repo'', Tag = ''d1-1'', ID = ''sha256:aa'', Size = 10\<rparr>\<rparr>"

definition world_report :: world where
  "world_report =
     world0\<lparr>conveyor := (conveyor world0)
               \<lparr>images := [image0\<lparr>lastNonEmptyStage := Some 1\<rparr>,
                           image0\<lparr>imName := ''tools'', isArtifact := True\<rparr>]\<rparr>,
            stageObj := (\<lambda>a. stage_built),
            imageObj := (\<lambda>a. stageImage0\<lparr>siStageDescription := Some description1\<rparr>),
            phase := (phase world0)\<lparr>ReportPath := ''report.json'', ReportFormat := ''json''\<rparr>\<rparr>"

text \<open>
  The same images under a phase as \<^verbatim>\<open>NewBuildPhase\<close> makes it from options that
  configure the report: the path \<^verbatim>\<open>report.json\<close> and the format \<^verbatim>\<open>json\<close>.
\<close>

definition world_configured :: world where
  "world_configured = world_report\<lparr>phase := NewBuildPhase options0\<rparr>"

definition world_nogit :: world where
  "world_nogit =
     world0\<lparr>phase := (phase world0)
        \<lparr>iterator := \<lparr>PrevNonEmptyStage = Some 0, PrevBuiltStage = Some 0\<rparr>,
         ShouldAddManagedImageRecord := True\<rparr>\<rparr>"

definition world_git :: world where
  "world_git = world_nogit\<lparr>conveyor := (conveyor world_nogit)\<lparr>localGitRepo := Some 1\<rparr>\<rparr>"

text \<open>
  Worlds and environments for the handler: the should-be-built mode with an empty storage;
  a stage whose image is built, with a storage that holds one stage of the digest, found
  suitable under the lock (another builder has published it) or not.
\<close>

definition world_required :: world where
  "world_required =
     world0\<lparr>phase := (phase world0)\<lparr>options := options0\<lparr>ShouldBeBuiltMode := True\<rparr>\<rparr>\<rparr>"

definition description2 :: StageDescription where
  "description2 =
     \<lparr>descStageID = Some \<lparr>Digest = ''d1'', UniqueID = 42\<rparr>,
      descInfo = \<lparr>InfoName = ''repo:new'', Repository = ''repo'', Tag = ''new'', ID = ''sha256:bb'', Size = 12\<rparr>\<rparr>"

definition world_built :: world where
  "world_built =
     world0\<lparr>stageObj := (\<lambda>a. stage0\<lparr>stDigest := ''d1'', stImage := Some 5\<rparr>),
            imageObj := (\<lambda>a. stageImage0\<lparr>siName := ''uuid-1''\<rparr>),
            conveyor := (conveyor world0)\<lparr>stageImages := [''uuid-1'' \<mapsto> 5]\<rparr>,
            nextImage := 6\<rparr>"

definition env_race :: env where
  "env_race =
     env0\<lparr>GetStagesByDigest := (\<lambda>w name digest. Inr [description1]),
          SelectSuitableStage := (\<lambda>w stg stages. Inr (Some description1))\<rparr>"

definition env_publish :: env where
  "env_publish =
     env0\<lparr>GetStagesByDigest := (\<lambda>w name digest. Inr [description1]),
          GetStageDescription := (\<lambda>w project digest uniqueID. Inr (Some description2))\<rparr>"

text \<open>Two sequences of results of the docker client.\<close>

definition pull_timeout_once :: "nat \<Rightarrow> string option" where
  "pull_timeout_once k = (if k = 0 then Some ''net/http: TLS handshake timeout'' else None)"

definition push_always_timeout :: "nat \<Rightarrow> string option" where
  "push_always_timeout k = Some ''dial tcp: i/o timeout''"

section \<open>Properties\<close>

text \<open>
  The equations of the loops, of \<open>showNat\<close> and of \<open>rangeOrder\<close> rewrite a call into
  itself; they are applied by hand.
\<close>

declare tryPull.simps [simp del] tryPush.simps [simp del] showNat.simps [simp del]
  rangeOrder.simps [simp del]

subsection \<open>The order of a range over a map\<close>

text \<open>
  Whatever the choices, \<open>rangeOrder\<close> visits every entry, and each of them once.
\<close>

lemma pickEntry_less: "0 < n \<Longrightarrow> pickEntry seed n < n"
  by (cases seed) (simp_all add: pickEntry_def)

lemma rangeOrder_permutes:
  "length (rangeOrder seed entries) = length entries \<and>
   set (rangeOrder seed entries) = set entries \<and>
   (distinct entries \<longrightarrow> distinct (rangeOrder seed entries))"
proof (induction seed entries rule: rangeOrder.induct)
  case (1 seed entries)
  show ?case
  proof (cases "entries = []")
    case True
    then show ?thesis by (simp add: rangeOrder.simps [of seed "[]"])
  next
    case False
    define k where "k = pickEntry seed (length entries)"
    from False have k: "k < length entries" unfolding k_def by (simp add: pickEntry_less)
    let ?rest = "take k entries @ drop (Suc k) entries"
    from 1 [OF False k_def] have ih:
      "length (rangeOrder (tl seed) ?rest) = length ?rest"
      "set (rangeOrder (tl seed) ?rest) = set ?rest"
      "distinct ?rest \<longrightarrow> distinct (rangeOrder (tl seed) ?rest)" by simp_all
    have eq: "rangeOrder seed entries = entries ! k # rangeOrder (tl seed) ?rest"
      using False by (simp add: rangeOrder.simps [of seed entries] k_def Let_def)
    have split: "entries = take k entries @ entries ! k # drop (Suc k) entries"
      using k by (rule id_take_nth_drop)
    have len: "length (rangeOrder seed entries) = length entries"
      using k by (simp add: eq ih(1))
    have "set entries = set (take k entries) \<union> {entries ! k} \<union> set (drop (Suc k) entries)"
      by (subst split) auto
    then have st: "set (rangeOrder seed entries) = set entries"
      by (auto simp add: eq ih(2))
    have di: "distinct (rangeOrder seed entries)" if d: "distinct entries"
    proof -
      from d have "distinct (take k entries @ entries ! k # drop (Suc k) entries)"
        using split by simp
      then have "distinct ?rest" "entries ! k \<notin> set ?rest" by auto
      with ih show ?thesis by (simp add: eq)
    qed
    from len st di show ?thesis by blast
  qed
qed

subsection \<open>The digest\<close>

text \<open>
  C1. The digest that \<^verbatim>\<open>calculateDigest\<close> returns is the hash of the build-cache
  version, the stage name and the stage's dependencies, followed, only when there is a
  previous non-empty stage, by that stage's digest and by the result of its
  \<^verbatim>\<open>GetNextStageDependencies\<close>, in this order. It is the spec's digest of these
  inputs, so equal inputs give equal digests and nothing else influences it: two calls,
  in any two worlds and environments, that agree on the hash, on the version, on the name,
  on the dependencies and on what the previous stage contributes return the same digest.
  Without a previous stage the world is left as it is; with one, the call of
  \<^verbatim>\<open>GetNextStageDependencies\<close> is all that happens, and its error is returned in
  place of a digest. The hash itself (\<^verbatim>\<open>util.Sha3_224Hash\<close>) is a parameter.
\<close>

theorem calculateDigest_hashes_declared_inputs:
  "calculateDigest e w stageName stageDependencies prev =
     (case prev of
        None \<Rightarrow>
          (Inr (specDigest (Sha3_224Hash e) (BuildCacheVersion e) stageName stageDependencies None), w)
      | Some p \<Rightarrow>
          (case GetNextStageDependencies e w p of
             Inl err \<Rightarrow>
               (Inl (Error (''unable to get prev stage '' @ stName (stageObj w p) @
                  '' dependencies for the stage '' @ stageName @ '': '' @ err)),
                emit (EvGetNextStageDependencies p (Inl err)) w)
           | Inr nextDeps \<Rightarrow>
               (Inr (specDigest (Sha3_224Hash e) (BuildCacheVersion e) stageName stageDependencies
                  (Some (stDigest (stageObj w p), nextDeps))),
                emit (EvGetNextStageDependencies p (Inr nextDeps)) w))) \<and>
   (Sha3_224Hash e' = Sha3_224Hash e \<and> BuildCacheVersion e' = BuildCacheVersion e \<and>
    (case (prev, prev') of
       (None, None) \<Rightarrow> True
     | (Some p, Some p') \<Rightarrow>
         stDigest (stageObj w' p') = stDigest (stageObj w p) \<and>
         GetNextStageDependencies e' w' p' = GetNextStageDependencies e w p
     | (None, Some p') \<Rightarrow> False
     | (Some p, None) \<Rightarrow> False) \<and>
    fst (calculateDigest e w stageName stageDependencies prev) = Inr digest \<and>
    fst (calculateDigest e' w' stageName stageDependencies prev') = Inr digest' \<longrightarrow>
    digest' = digest)"
  by (auto simp add: calculateDigest_def specDigest_def emit_def Let_def
      split: option.splits sum.splits)

theorem calculateDigest_hashes_declared_inputs_witness:
  "calculateDigest env0 world0 ''install'' ''deps'' (Some 3) =
     (Inr ''1.2installdepsnext'', emit (EvGetNextStageDependencies 3 (Inr ''next'')) world0) \<and>
   fst (calculateDigest env0 world_nogit ''install'' ''deps'' (Some 4)) = Inr ''1.2installdepsnext''"
proof -
  have a: "calculateDigest env0 world0 ''install'' ''deps'' (Some 3) =
     (Inr ''1.2installdepsnext'', emit (EvGetNextStageDependencies 3 (Inr ''next'')) world0)"
    using calculateDigest_hashes_declared_inputs
      [where e = env0 and w = world0 and stageName = "''install''" and
        stageDependencies = "''deps''" and prev = "Some 3"]
    by (simp add: env0_def specDigest_def world0_def stage0_def)
  obtain d where d: "fst (calculateDigest env0 world_nogit ''install'' ''deps'' (Some 4)) = Inr d"
    by (simp add: calculateDigest_def env0_def Let_def)
  from calculateDigest_hashes_declared_inputs
    [where e = env0 and w = world0 and stageName = "''install''" and
      stageDependencies = "''deps''" and prev = "Some 3" and e' = env0 and w' = world_nogit and
      prev' = "Some 4" and digest = "''1.2installdepsnext''" and digest' = d] a d
  have "d = ''1.2installdepsnext''"
    by (simp add: env0_def world_nogit_def world0_def)
  with a d show ?thesis by simp
qed

subsection \<open>The handler on an empty stage\<close>

text \<open>
  C9. Called with \<^verbatim>\<open>isEmpty\<close> true, the stage handler returns nil at once: no
  collaborator is called (the trace is as it was), and the phase, the conveyor, the
  stages and the stage images are unchanged.
\<close>

theorem onImageStage_empty_stage_is_noop:
  "onImageStage e w img stg True = (Inr (), w)"
  by (simp add: onImageStage_def)

theorem onImageStage_empty_stage_is_noop_witness:
  "onImageStage env0 world0 image0 0 True = (Inr (), world0)"
  using onImageStage_empty_stage_is_noop [of env0 world0 image0 0] by simp

subsection \<open>The report\<close>

lemma nonArtifactNames_Nil: "nonArtifactNames [] = {}"
  by (simp add: nonArtifactNames_def)

lemma nonArtifactNames_Cons:
  "nonArtifactNames (img # imgs) =
     (if isArtifact img then nonArtifactNames imgs else insert (imName img) (nonArtifactNames imgs))"
  by (auto simp add: nonArtifactNames_def)

lemma createReport_images_frame:
  "createReport_images imgs w = (r, w') \<Longrightarrow>
     trace w' = trace w \<and> conveyor w' = conveyor w \<and>
     ReportPath (phase w') = ReportPath (phase w) \<and> ReportFormat (phase w') = ReportFormat (phase w)"
proof (induction imgs arbitrary: w)
  case Nil
  then show ?case by simp
next
  case (Cons img imgs)
  then show ?case
    by (auto simp add: SetImageRecord_def split: if_splits option.splits)
qed

lemma createReport_images_step:
  "\<not> isArtifact img \<Longrightarrow> createReport_images (img # imgs) w = (r, w') \<Longrightarrow>
     (\<exists>f. r = Inl f \<and> w' = w) \<or>
     (\<exists>rec. createReport_images imgs (SetImageRecord (imName img) rec w) = (r, w'))"
  by (auto split: option.splits)

lemma dom_SetImageRecord:
  "dom (Images (report (phase (SetImageRecord n rec w)))) = insert n (dom (Images (report (phase w))))"
  by (simp add: SetImageRecord_def)

lemma createReport_images_dom_subset:
  "createReport_images imgs w = (r, w') \<Longrightarrow>
     dom (Images (report (phase w'))) \<subseteq> dom (Images (report (phase w))) \<union> nonArtifactNames imgs"
proof (induction imgs arbitrary: w)
  case Nil
  then show ?case by simp
next
  case (Cons img imgs)
  show ?case
  proof (cases "isArtifact img")
    case True
    with Cons show ?thesis by (simp add: nonArtifactNames_Cons)
  next
    case False
    from createReport_images_step [OF False Cons.prems] show ?thesis
    proof
      assume "\<exists>f. r = Inl f \<and> w' = w"
      then show ?thesis by auto
    next
      assume "\<exists>rec. createReport_images imgs (SetImageRecord (imName img) rec w) = (r, w')"
      then obtain rec where "createReport_images imgs (SetImageRecord (imName img) rec w) = (r, w')" ..
      from Cons.IH [OF this] False show ?thesis
        by (simp add: dom_SetImageRecord nonArtifactNames_Cons)
    qed
  qed
qed

lemma createReport_images_dom:
  "createReport_images imgs w = (Inr u, w') \<Longrightarrow>
     dom (Images (report (phase w'))) = dom (Images (report (phase w))) \<union> nonArtifactNames imgs"
proof (induction imgs arbitrary: w)
  case Nil
  then show ?case by (simp add: nonArtifactNames_Nil)
next
  case (Cons img imgs)
  show ?case
  proof (cases "isArtifact img")
    case True
    with Cons show ?thesis by (simp add: nonArtifactNames_Cons)
  next
    case False
    from createReport_images_step [OF False Cons.prems]
    obtain rec where "createReport_images imgs (SetImageRecord (imName img) rec w) = (Inr u, w')"
      by auto
    from Cons.IH [OF this] False show ?thesis
      by (simp add: dom_SetImageRecord nonArtifactNames_Cons)
  qed
qed


lemma createReport_images_fault:
  "createReport_images imgs w = (Inl f, w') \<Longrightarrow> f = nilDereference"
proof (induction imgs arbitrary: w)
  case Nil
  then show ?case by simp
next
  case (Cons img imgs)
  then show ?case
    by (auto split: if_splits option.splits)
qed

lemma createReport_loop:
  "createReport e w = (r, w') \<Longrightarrow>
     \<exists>r1 w1. createReport_images (images (conveyor w)) w = (r1, w1) \<and>
       report (phase w') = report (phase w1) \<and>
       (case r1 of Inl f \<Rightarrow> r = Inl f | Inr u \<Rightarrow> (\<forall>m. r \<noteq> Inl (Panic m)))"
  by (auto simp add: createReport_def ToJson_def emit_def Let_def
      split: prod.splits sum.splits option.splits if_splits)

text \<open>
  C6. The report of \<^verbatim>\<open>createReport\<close>, started from the empty map of
  \<^verbatim>\<open>NewBuildPhase\<close>, has keys that are names of images not marked
  \<^verbatim>\<open>isArtifact\<close>, also when the loop panics on a missing description; when it does
  not panic the keys are exactly those names, so that, the names of the images being
  distinct, an image has an entry if and only if it is not an artifact. The JSON is the
  marshalling of this map.
\<close>

theorem createReport_entries_are_non_artifacts:
  assumes run: "createReport e w = (r, w')"
    and fresh: "Images (report (phase w)) = Map.empty"
  shows "dom (Images (report (phase w'))) \<subseteq> nonArtifactNames (images (conveyor w)) \<and>
    ((\<forall>m. r \<noteq> Inl (Panic m)) \<longrightarrow>
       dom (Images (report (phase w'))) = nonArtifactNames (images (conveyor w))) \<and>
    ((\<forall>m. r \<noteq> Inl (Panic m)) \<longrightarrow> distinct (map imName (images (conveyor w))) \<longrightarrow>
       (\<forall>img \<in> set (images (conveyor w)).
          imName img \<in> dom (Images (report (phase w'))) \<longleftrightarrow> \<not> isArtifact img))"
proof -
  from createReport_loop [OF run] obtain r1 w1 where
    loop: "createReport_images (images (conveyor w)) w = (r1, w1)" and
    rep: "report (phase w') = report (phase w1)" and
    res: "case r1 of Inl f \<Rightarrow> r = Inl f | Inr u \<Rightarrow> (\<forall>m. r \<noteq> Inl (Panic m))"
    by blast
  have sub: "dom (Images (report (phase w'))) \<subseteq> nonArtifactNames (images (conveyor w))"
    using createReport_images_dom_subset [OF loop] fresh rep by simp
  have eq: "dom (Images (report (phase w'))) = nonArtifactNames (images (conveyor w))"
    if "\<forall>m. r \<noteq> Inl (Panic m)"
  proof (cases r1)
    case (Inl f)
    with createReport_images_fault loop have "f = nilDereference" by blast
    with Inl res that show ?thesis by (auto simp add: nilDereference_def)
  next
    case (Inr u)
    with createReport_images_dom [of "images (conveyor w)" w u w1] loop fresh rep
    show ?thesis by simp
  qed
  have iff: "imName img \<in> dom (Images (report (phase w'))) \<longleftrightarrow> \<not> isArtifact img"
    if "\<forall>m. r \<noteq> Inl (Panic m)" and d: "distinct (map imName (images (conveyor w)))"
      and mem: "img \<in> set (images (conveyor w))" for img
  proof -
    have "imName img \<in> nonArtifactNames (images (conveyor w)) \<longleftrightarrow> \<not> isArtifact img"
    proof
      assume "imName img \<in> nonArtifactNames (images (conveyor w))"
      then obtain img' where i': "img' \<in> set (images (conveyor w))" "\<not> isArtifact img'"
        "imName img' = imName img"
        by (auto simp add: nonArtifactNames_def)
      from d i'(1) mem i'(3) have "img' = img"
        by (meson distinct_map inj_onD)
      with i'(2) show "\<not> isArtifact img" by simp
    next
      assume "\<not> isArtifact img"
      with mem show "imName img \<in> nonArtifactNames (images (conveyor w))"
        by (auto simp add: nonArtifactNames_def)
    qed
    with eq [OF that(1)] show ?thesis by simp
  qed
  from sub eq iff show ?thesis by blast
qed


theorem createReport_entries_are_non_artifacts_witness:
  "dom (Images (report (phase (snd (createReport env0 world_report))))) = {''app''} \<and>
   ''tools'' \<notin> dom (Images (report (phase (snd (createReport env0 world_report)))))"
proof -
  have run: "createReport env0 world_report =
      (fst (createReport env0 world_report), snd (createReport env0 world_report))"
    by simp
  have fresh: "Images (report (phase world_report)) = Map.empty"
    by (simp add: world_report_def world0_def NewBuildPhase_def)
  have ok: "\<forall>m. fst (createReport env0 world_report) \<noteq> Inl (Panic m)"
    by (simp add: createReport_def world_report_def world0_def NewBuildPhase_def image0_def
        stage_built_def stage0_def stageImage0_def SetImageRecord_def ToJson_def env0_def emit_def
        ReportJSON_def Let_def)
  have names: "nonArtifactNames (images (conveyor world_report)) = {''app''}"
    by (simp add: nonArtifactNames_Cons nonArtifactNames_Nil world_report_def world0_def image0_def)
  from createReport_entries_are_non_artifacts [OF run fresh] ok names
  show ?thesis by simp
qed

lemma createReport_images_outcome:
  "createReport_images imgs w = (r, w') \<Longrightarrow> r = Inl nilDereference \<or> r = Inr ()"
  by (induction imgs arbitrary: w) (auto split: if_splits option.splits)

text \<open>
  \<^verbatim>\<open>NewBuildPhase\<close> fills the embedded options and leaves the phase's own
  \<^verbatim>\<open>ReportPath\<close> and \<^verbatim>\<open>ReportFormat\<close> empty, whatever the options say.
\<close>

lemma NewBuildPhase_report_path_empty:
  "ReportPath (NewBuildPhase opts) = [] \<and> ReportFormat (NewBuildPhase opts) = [] \<and>
   options (NewBuildPhase opts) = opts"
  by (simp add: NewBuildPhase_def)

text \<open>
  C7. \<^verbatim>\<open>createReport\<close> decides whether it writes the file by
  \<^verbatim>\<open>phase.ReportPath\<close> and \<^verbatim>\<open>phase.ReportFormat\<close>, which are the two fields that
  \<^verbatim>\<open>BuildPhase\<close> declares itself, not the fields of the same names of the embedded
  options. \<^verbatim>\<open>NewBuildPhase\<close> leaves them empty: for a phase whose own path is the one
  of a phase made by \<^verbatim>\<open>NewBuildPhase\<close>, from any options, \<^verbatim>\<open>createReport\<close> writes
  no file, also when the options configure a path and the format \<^verbatim>\<open>json\<close>. So the
  code does not write the report that is configured. The rest is as the spec says, read
  on the phase's own fields: unless the loop over the images panics (then nothing is
  called), the report is marshalled by \<^verbatim>\<open>json.MarshalIndent\<close> with the empty prefix
  and a tab as the indent; an error of the marshalling is returned wrapped; with a path
  and the format \<^verbatim>\<open>json\<close> there is one call of \<^verbatim>\<open>WriteFile\<close>, to that path, with
  the marshalled data followed by one line break and the mode 0644 (420), whose error is
  returned wrapped; without a path, or with another format, no file is written.
\<close>

theorem createReport_ignores_configured_report_path:
  assumes run: "createReport e w = (r, w')"
  shows "\<exists>evs. trace w' = trace w @ evs \<and>
    (\<forall>opts. ReportPath (phase w) = ReportPath (NewBuildPhase opts) \<longrightarrow>
       list_all (\<lambda>ev. \<not> isWriteFile ev) evs) \<and>
    ((ReportPath (phase w) = [] \<or> ReportFormat (phase w) \<noteq> ReportJSON) \<longrightarrow>
       list_all (\<lambda>ev. \<not> isWriteFile ev) evs) \<and>
    ((\<exists>m. r = Inl (Panic m)) \<longrightarrow> evs = []) \<and>
    ((\<forall>m. r \<noteq> Inl (Panic m)) \<longrightarrow>
       (let marshalled = MarshalIndent e (report (phase w')) [] [CHR 0x09];
            ev = EvMarshalIndent (report (phase w')) [] [CHR 0x09] marshalled in
        case marshalled of
          Inl err \<Rightarrow> evs = [ev] \<and> r = Inl (Error (''unable to prepare report json: '' @ err))
        | Inr data \<Rightarrow>
            if ReportPath (phase w) \<noteq> [] \<and> ReportFormat (phase w) = ReportJSON then
              (let res = WriteFile e (w'\<lparr>trace := trace w @ [ev]\<rparr>) (ReportPath (phase w))
                           (data @ [CHR 0x0A]) mode0644 in
               evs = [ev, EvWriteFile (ReportPath (phase w)) (data @ [CHR 0x0A]) mode0644 res] \<and>
               r = (case res of
                      None \<Rightarrow> Inr ()
                    | Some err \<Rightarrow>
                        Inl (Error (''unable to write report to '' @ ReportPath (phase w) @
                          '': '' @ err))))
            else evs = [ev] \<and> r = Inr ())) \<and>
    mode0644 = 420"
proof -
  obtain r1 w1 where loop: "createReport_images (images (conveyor w)) w = (r1, w1)"
    by (cases "createReport_images (images (conveyor w)) w")
  note fr = createReport_images_frame [OF loop]
  have new: "ReportPath (NewBuildPhase opts) = []" for opts
    by (simp add: NewBuildPhase_def)
  have mode: "mode0644 = 420" by (simp add: mode0644_def)
  from createReport_images_outcome [OF loop] show ?thesis
  proof
    assume "r1 = Inl nilDereference"
    with run loop have "r = Inl nilDereference" "w' = w1"
      by (simp_all add: createReport_def)
    with fr mode show ?thesis by (simp add: nilDereference_def)
  next
    assume ok: "r1 = Inr ()"
    define marshalled where "marshalled = MarshalIndent e (report (phase w1)) [] [CHR 0x09]"
    define ev where "ev = EvMarshalIndent (report (phase w1)) [] [CHR 0x09] marshalled"
    define w2 where "w2 = w1\<lparr>trace := trace w @ [ev]\<rparr>"
    have tj: "ToJson e w1 = (marshalled, w2)"
      using fr by (simp add: ToJson_def Let_def emit_def marshalled_def ev_def w2_def)
    show ?thesis
    proof (cases marshalled)
      case (Inl err)
      with run loop ok tj have "r = Inl (Error (''unable to prepare report json: '' @ err))" "w' = w2"
        by (simp_all add: createReport_def)
      with Inl fr mode show ?thesis
        by (simp add: w2_def Let_def marshalled_def [symmetric] ev_def new)
    next
      case (Inr data)
      show ?thesis
      proof (cases "ReportPath (phase w) \<noteq> [] \<and> ReportFormat (phase w) = ReportJSON")
        case False
        with run loop ok tj Inr fr have "r = Inr ()" "w' = w2"
          by (auto simp add: createReport_def w2_def)
        with Inr fr mode False show ?thesis
          by (auto simp add: w2_def Let_def marshalled_def [symmetric] ev_def new)
      next
        case True
        define res where "res = WriteFile e w2 (ReportPath (phase w)) (data @ [CHR 0x0A]) mode0644"
        from run loop ok tj Inr fr True have
          r: "r = (case res of None \<Rightarrow> Inr ()
                 | Some err \<Rightarrow> Inl (Error (''unable to write report to '' @ ReportPath (phase w) @
                          '': '' @ err)))" and
          wfin: "w' = w2\<lparr>trace := trace w @ [ev, EvWriteFile (ReportPath (phase w)) (data @ [CHR 0x0A]) mode0644 res]\<rparr>"
          by (auto simp add: createReport_def w2_def Let_def emit_def res_def split: option.splits)
        have ph: "phase w' = phase w1" by (simp add: wfin w2_def)
        have m: "MarshalIndent e (report (phase w')) [] [CHR 0x09] = Inr data"
          using Inr by (simp add: ph marshalled_def)
        have evI: "ev = EvMarshalIndent (report (phase w')) [] [CHR 0x09] (Inr data)"
          using Inr by (simp add: ev_def ph)
        have w2eq: "w'\<lparr>trace := trace w @ [ev]\<rparr> = w2"
          by (simp add: wfin w2_def)
        have tr: "trace w' = trace w @
            [EvMarshalIndent (report (phase w')) [] [CHR 0x09] (Inr data),
             EvWriteFile (ReportPath (phase w)) (data @ [CHR 0x0A]) mode0644 res]"
          unfolding evI [symmetric] by (simp add: wfin)
        have resI: "WriteFile e
            (w'\<lparr>trace := trace w @ [EvMarshalIndent (report (phase w')) [] [CHR 0x09] (Inr data)]\<rparr>)
            (ReportPath (phase w)) (data @ [CHR 0x0A]) mode0644 = res"
          using w2eq by (simp add: evI res_def)
        have nopanic: "\<forall>m. r \<noteq> Inl (Panic m)"
          by (simp add: r split: option.splits)
        from True nopanic tr m resI r show ?thesis
          by (simp add: Let_def mode0644_def new)
      qed
    qed
  qed
qed

theorem createReport_ignores_configured_report_path_witness:
  "optReportPath (options (phase world_configured)) = ''report.json'' \<and>
   optReportFormat (options (phase world_configured)) = ReportJSON \<and>
   fst (createReport env0 world_configured) = Inr () \<and>
   dom (Images (report (phase (snd (createReport env0 world_configured))))) = {''app''} \<and>
   list_all (\<lambda>ev. \<not> isWriteFile ev) (trace (snd (createReport env0 world_configured))) \<and>
   trace (snd (createReport env0 world_report)) =
     [EvMarshalIndent (report (phase (snd (createReport env0 world_report)))) [] [CHR 0x09] (Inr ''{}''),
      EvWriteFile ''report.json'' (''{}'' @ [CHR 0x0A]) mode0644 None]"
proof -
  have run: "createReport env0 world_configured =
      (fst (createReport env0 world_configured), snd (createReport env0 world_configured))"
    by simp
  have opts: "optReportPath (options (phase world_configured)) = ''report.json''"
    "optReportFormat (options (phase world_configured)) = ReportJSON"
    by (simp_all add: world_configured_def NewBuildPhase_def options0_def ReportJSON_def)
  have res: "fst (createReport env0 world_configured) = Inr ()"
    "dom (Images (report (phase (snd (createReport env0 world_configured))))) = {''app''}"
    by (simp_all add: createReport_def world_configured_def world_report_def world0_def
        NewBuildPhase_def image0_def stage_built_def stage0_def stageImage0_def SetImageRecord_def
        ToJson_def env0_def emit_def ReportJSON_def Let_def)
  have tr: "trace (snd (createReport env0 world_report)) =
     [EvMarshalIndent (report (phase (snd (createReport env0 world_report)))) [] [CHR 0x09] (Inr ''{}''),
      EvWriteFile ''report.json'' (''{}'' @ [CHR 0x0A]) mode0644 None]"
    by (simp add: createReport_def world_report_def world0_def NewBuildPhase_def image0_def
        stage_built_def stage0_def stageImage0_def SetImageRecord_def ToJson_def env0_def emit_def
        ReportJSON_def Let_def)
  have p0: "ReportPath (phase world_configured) = ReportPath (NewBuildPhase options0)"
    "trace world_configured = []"
    by (simp_all add: world_configured_def world_report_def world0_def)
  from createReport_ignores_configured_report_path [OF run] p0
  have "list_all (\<lambda>ev. \<not> isWriteFile ev) (trace (snd (createReport env0 world_configured)))"
    by auto
  with opts res tr show ?thesis by simp
qed

text \<open>
  No handler of the build phase assigns the phase's own \<^verbatim>\<open>ReportPath\<close> and
  \<^verbatim>\<open>ReportFormat\<close>, or the options: they are, when \<^verbatim>\<open>createReport\<close> runs, what
  \<^verbatim>\<open>NewBuildPhase\<close> made them.
\<close>

lemma reportSettings_simps:
  "reportSettings (emit ev w) = reportSettings w"
  "reportSettings (SetDigest stg d w) = reportSettings w"
  "reportSettings (SetContentDigest stg d w) = reportSettings w"
  "reportSettings (SetImage stg i w) = reportSettings w"
  "reportSettings (SetStageDescription j desc w) = reportSettings w"
  "reportSettings (SetName j n w) = reportSettings w"
  "reportSettings (UnsetStageImage n w) = reportSettings w"
  "reportSettings (SetStageImage j w) = reportSettings w"
  "reportSettings (WarnLogF text w) = reportSettings w"
  "reportSettings (WarnLogLn text w) = reportSettings w"
  "reportSettings (testSleep e n w) = reportSettings w"
  "reportSettings (snd (GetOrCreateStageImage fromImage n w)) = reportSettings w"
  "reportSettings (SetImageRecord n rec w) = reportSettings w"
  by (simp_all add: reportSettings_def emit_def SetDigest_def SetContentDigest_def SetImage_def
      SetStageDescription_def SetName_def UnsetStageImage_def SetStageImage_def WarnLogF_def
      WarnLogLn_def testSleep_def GetOrCreateStageImage_def Let_def SetImageRecord_def
      split: option.splits)

lemma reportSettings_printShouldBeBuiltError:
  "reportSettings (printShouldBeBuiltError w img stg) = reportSettings w"
  by (simp add: printShouldBeBuiltError_def Let_def split_def reportSettings_simps)

lemma reportSettings_Mutex:
  "MutexLock d w = (r, w') \<Longrightarrow> reportSettings w' = reportSettings w"
  "MutexUnlock d w = (r, w') \<Longrightarrow> reportSettings w' = reportSettings w"
  by (auto simp add: MutexLock_def MutexUnlock_def reportSettings_def emit_def split: if_splits)

lemma reportSettings_deferred:
  assumes d: "\<And>wd r' wd'. d wd = (r', wd') \<Longrightarrow> reportSettings wd' = reportSettings wd"
    and run: "deferred d rw = (r, w')"
  shows "reportSettings w' = reportSettings (snd rw)"
proof -
  obtain r1 w1 where dd: "d (snd rw) = (r1, w1)" by (cases "d (snd rw)")
  from run dd have "w' = w1" by (cases r1) (simp_all add: deferred_def)
  with d [OF dd] show ?thesis by simp
qed

lemma reportSettings_calculateDigest:
  "calculateDigest e w n deps prev = (r, w') \<Longrightarrow> reportSettings w' = reportSettings w"
  by (auto simp add: calculateDigest_def Let_def reportSettings_simps split: option.splits sum.splits)

lemma reportSettings_calculateStage_content:
  "calculateStage_content e w stg = (r, w') \<Longrightarrow> reportSettings w' = reportSettings w"
  by (auto simp add: calculateStage_content_def reportSettings_simps
      dest!: reportSettings_calculateDigest split: prod.splits sum.splits)

lemma reportSettings_calculateStage_locked:
  "calculateStage_locked e w img stg m sig = (r, w') \<Longrightarrow> reportSettings w' = reportSettings w"
  by (auto simp add: calculateStage_locked_def Let_def split_def reportSettings_simps
      reportSettings_printShouldBeBuiltError
      dest!: reportSettings_calculateStage_content split: sum.splits option.splits if_splits)

lemma reportSettings_calculateStage_digest:
  "calculateStage_digest e w img stg = (r, w') \<Longrightarrow> reportSettings w' = reportSettings w"
  by (auto simp add: calculateStage_digest_def Let_def reportSettings_simps
      dest!: reportSettings_calculateDigest reportSettings_Mutex(1)
      split: sum.splits prod.splits)

lemma reportSettings_calculateStage:
  "calculateStage e w img stg m = (r, w') \<Longrightarrow> reportSettings w' = reportSettings w"
  by (auto simp add: calculateStage_def
      dest!: reportSettings_calculateStage_digest reportSettings_calculateStage_locked
      split: sum.splits prod.splits)


lemma reportSettings_fetchBaseImageForStage:
  assumes "fetchBaseImageForStage e w img stg = (r, w')"
  shows "reportSettings w' = reportSettings w"
proof -
  have "reportSettings (snd (fetchBaseImageForStage e w img stg)) = reportSettings w"
    by (simp add: fetchBaseImageForStage_def Let_def reportSettings_simps split: option.splits)
  with assms show ?thesis by simp
qed

lemma reportSettings_prepareStageInstructions_labels:
  "reportSettings (prepareStageInstructions_labels e w stg si) = reportSettings w"
  by (simp add: prepareStageInstructions_labels_def Let_def reportSettings_simps)

lemma reportSettings_prepareStageInstructions:
  assumes "prepareStageInstructions e w img stg = (r, w')"
  shows "reportSettings w' = reportSettings w"
proof -
  have "reportSettings (snd (prepareStageInstructions e w img stg)) = reportSettings w"
    by (simp add: prepareStageInstructions_def Let_def reportSettings_simps
        reportSettings_prepareStageInstructions_labels split: option.splits)
  with assms show ?thesis by simp
qed

lemma reportSettings_atomicBuildStageImage_publish:
  assumes "atomicBuildStageImage_publish e w img stg si stages = (r, w')"
  shows "reportSettings w' = reportSettings w"
proof -
  have "reportSettings (snd (atomicBuildStageImage_publish e w img stg si stages)) = reportSettings w"
    by (simp add: atomicBuildStageImage_publish_def Let_def reportSettings_simps
        split: option.splits sum.splits)
  with assms show ?thesis by simp
qed

lemma reportSettings_atomicBuildStageImage_discard:
  assumes "atomicBuildStageImage_discard e w img stg desc = (r, w')"
  shows "reportSettings w' = reportSettings w"
proof -
  have "reportSettings (snd (atomicBuildStageImage_discard e w img stg desc)) = reportSettings w"
    by (simp add: atomicBuildStageImage_discard_def Let_def split_def reportSettings_simps
        split: ImageInterface.splits)
  with assms show ?thesis by simp
qed

lemma reportSettings_atomicBuildStageImage_locked:
  "atomicBuildStageImage_locked e w img stg si = (r, w') \<Longrightarrow>
   reportSettings w' = reportSettings w"
  by (auto simp add: atomicBuildStageImage_locked_def Let_def reportSettings_simps
      dest!: reportSettings_atomicBuildStageImage_publish reportSettings_atomicBuildStageImage_discard
      split: option.splits sum.splits)

lemma reportSettings_atomicBuildStageImage_build:
  assumes "atomicBuildStageImage_build e w img stg = (r, w')"
  shows "reportSettings w' = reportSettings w"
proof -
  have "reportSettings (snd (atomicBuildStageImage_build e w img stg)) = reportSettings w"
    by (simp add: atomicBuildStageImage_build_def Let_def reportSettings_simps
        split: option.splits sum.splits)
  with assms show ?thesis by simp
qed

lemma reportSettings_atomicBuildStageImage:
  assumes run: "atomicBuildStageImage e w img stg = (r, w')"
  shows "reportSettings w' = reportSettings w"
proof -
  obtain rb wb where b: "atomicBuildStageImage_build e w img stg = (rb, wb)"
    by (cases "atomicBuildStageImage_build e w img stg")
  note fb = reportSettings_atomicBuildStageImage_build [OF b]
  show ?thesis
  proof (cases rb)
    case (Inl f)
    with run b fb show ?thesis by (simp add: atomicBuildStageImage_def)
  next
    case (Inr p)
    obtain si lock where p: "p = (si, lock)" by (cases p)
    obtain rl wl where l: "atomicBuildStageImage_locked e wb img stg si = (rl, wl)"
      by (cases "atomicBuildStageImage_locked e wb img stg si")
    from run b Inr p l have
      "deferred (\<lambda>wd. (Inr (), emit (EvUnlockStage lock) wd)) (rl, wl) = (r, w')"
      by (simp add: atomicBuildStageImage_def)
    then have "reportSettings w' = reportSettings (snd (rl, wl))"
      by (rule reportSettings_deferred [rotated]) (auto simp add: reportSettings_simps)
    with reportSettings_atomicBuildStageImage_locked [OF l] fb show ?thesis by simp
  qed
qed

lemma reportSettings_introspectStage:
  "introspectStage e w s = (r, w') \<Longrightarrow> reportSettings w' = reportSettings w"
  by (auto simp add: introspectStage_def Let_def reportSettings_simps split: option.splits)


lemma reportSettings_buildStage:
  assumes run: "buildStage e w img stg = (r, w')"
  shows "reportSettings w' = reportSettings w"
proof -
  define rc where "rc = (if \<not> isDockerfileImage img then GetOrCreateContainer e w else None)"
  define w0 where "w0 = (if \<not> isDockerfileImage img then emit (EvGetOrCreateContainer rc) w else w)"
  define rh where "rh = PreRunHook e w0 stg"
  define w1 where "w1 = emit (EvPreRunHook stg rh) w0"
  define body where "body =
     (case rh of
        Some err \<Rightarrow>
          (Inl (Error (stLogDetailedName (stageObj w1 stg) @ '' preRunHook failed: '' @ err)), w1)
      | None \<Rightarrow> atomicBuildStageImage e w1 img stg)"
  have unfold: "buildStage e w img stg =
     (case rc of
        Some err \<Rightarrow> (Inl (Error (''get or create stapel container failed: '' @ err)), w0)
      | None \<Rightarrow>
          (case body of
             (Inl (Error err), w2) \<Rightarrow>
               (case logImageCommands w2 (stImage (stageObj w2 stg)) of
                  Some f \<Rightarrow> (Inl f, w2)
                | None \<Rightarrow> (Inl (Error err), w2))
           | (Inl (Panic m), w2) \<Rightarrow> (Inl (Panic m), w2)
           | (Inl (Blocked m), w2) \<Rightarrow> (Inl (Blocked m), w2)
           | (Inr u, w2) \<Rightarrow>
               (case logImageInfo w2 (stImage (stageObj w2 stg)) (getPrevNonEmptyStageImageSize w2) False of
                  Some f \<Rightarrow> (Inl f, w2)
                | None \<Rightarrow>
                    (if ImageStageShouldBeIntrospected (Targets (options (phase w2))) (imName img)
                          (stName (stageObj w2 stg))
                     then introspectStage e w2 stg
                     else (Inr (), w2)))))"
    unfolding buildStage_def Let_def rc_def w0_def rh_def w1_def body_def ..
  have f0: "reportSettings w0 = reportSettings w" by (simp add: w0_def reportSettings_simps)
  have f1: "reportSettings w1 = reportSettings w" by (simp add: w1_def f0 reportSettings_simps)
  have fb: "reportSettings (snd body) = reportSettings w"
  proof (cases rh)
    case None
    obtain ra wa where a: "atomicBuildStageImage e w1 img stg = (ra, wa)"
      by (cases "atomicBuildStageImage e w1 img stg")
    from reportSettings_atomicBuildStageImage [OF a] a None f1 show ?thesis
      by (simp add: body_def)
  next
    case (Some err)
    with f1 show ?thesis by (simp add: body_def)
  qed
  obtain rb wb where b: "body = (rb, wb)" by (cases body)
  show ?thesis
  proof (cases rc)
    case (Some err)
    with run unfold have "w' = w0" by simp
    with f0 show ?thesis by simp
  next
    case None
    with run unfold b have "reportSettings w' = reportSettings wb"
      by (auto dest!: reportSettings_introspectStage
          split: sum.splits fault.splits option.splits if_splits)
    with fb b show ?thesis by simp
  qed
qed

lemma reportSettings_ShouldAddManagedImageRecord:
  "reportSettings (w\<lparr>phase := (phase w)\<lparr>ShouldAddManagedImageRecord := b\<rparr>\<rparr>) = reportSettings w"
  by (simp add: reportSettings_def)

lemma reportSettings_onImageStage_calculated:
  "onImageStage_calculated e w img stg = (r, w') \<Longrightarrow> reportSettings w' = reportSettings w"
  by (auto simp add: onImageStage_calculated_def reportSettings_ShouldAddManagedImageRecord
      dest!: reportSettings_introspectStage reportSettings_fetchBaseImageForStage
        reportSettings_prepareStageInstructions reportSettings_buildStage
      split: option.splits if_splits prod.splits sum.splits)

lemma reportSettings_onImageStage:
  assumes run: "onImageStage e w img stg isEmpty = (r, w')"
  shows "reportSettings w' = reportSettings w"
proof -
  have unl: "reportSettings wd' = reportSettings wd" if "MutexUnlock d wd = (r', wd')" for d wd r' wd'
    using that by (rule reportSettings_Mutex(2))
  have calc: "reportSettings (snd (onImageStage_calculated e w2 img stg)) = reportSettings w2" for w2
    by (rule reportSettings_onImageStage_calculated [of e w2 img stg]) (rule surjective_pairing)
  from run show ?thesis
    by (auto simp add: onImageStage_def Let_def reportSettings_simps calc
        dest!: reportSettings_calculateStage reportSettings_deferred [OF unl, rotated]
        split: option.splits if_splits prod.splits sum.splits)
qed

lemma reportSettings_addManagedImage:
  "addManagedImage e w img = (r, w') \<Longrightarrow> reportSettings w' = reportSettings w"
  by (auto simp add: addManagedImage_def Let_def reportSettings_simps split: option.splits if_splits)

lemma reportSettings_publishImageMetadata:
  assumes "publishImageMetadata e w img = (r, w')"
  shows "reportSettings w' = reportSettings w"
proof -
  have "reportSettings (snd (publishImageMetadata e w img)) = reportSettings w"
    by (simp add: publishImageMetadata_def Let_def reportSettings_simps
        split: option.splits sum.splits)
  with assms show ?thesis by simp
qed

lemma reportSettings_AfterImageStages:
  "AfterImageStages e w img = (r, img', w') \<Longrightarrow> reportSettings w' = reportSettings w"
  by (auto simp add: AfterImageStages_def Let_def
      dest!: reportSettings_addManagedImage reportSettings_publishImageMetadata
      split: option.splits if_splits prod.splits sum.splits)

lemma reportSettings_createReport_images:
  "createReport_images imgs w = (r, w') \<Longrightarrow> reportSettings w' = reportSettings w"
  by (induction imgs arbitrary: w)
     (auto simp add: reportSettings_simps split: if_splits option.splits)

lemma reportSettings_createReport:
  "createReport e w = (r, w') \<Longrightarrow> reportSettings w' = reportSettings w"
  by (auto simp add: createReport_def ToJson_def Let_def reportSettings_simps
      dest!: reportSettings_createReport_images
      split: prod.splits sum.splits option.splits if_splits)

subsection \<open>The image metadata\<close>

lemma addManagedImage_trace:
  "\<exists>evs. trace (snd (addManagedImage e w img)) = trace w @ evs \<and>
     list_all (\<lambda>ev. \<not> isImageMetadataEvent ev) evs"
  by (simp add: addManagedImage_def emit_def Let_def split: option.splits)

text \<open>
  C10. Without a local git repository \<^verbatim>\<open>publishImageMetadata\<close> returns nil and
  leaves the world, trace included, as it is: it calls neither \<^verbatim>\<open>HeadCommit\<close> nor
  \<^verbatim>\<open>IsImageMetadataExist\<close> nor \<^verbatim>\<open>PutImageMetadata\<close>, and so
  \<^verbatim>\<open>AfterImageStages\<close> makes none of these calls either. In every case
  \<^verbatim>\<open>PutImageMetadata\<close> is called if and only if \<^verbatim>\<open>IsImageMetadataExist\<close> has
  answered false.
\<close>

theorem publishImageMetadata_without_and_with_repo:
  "(localGitRepo (conveyor w) = None \<longrightarrow> publishImageMetadata e w img = (Inr (), w)) \<and>
   (localGitRepo (conveyor w) = None \<longrightarrow>
      (\<exists>evs. trace (snd (snd (AfterImageStages e w img))) = trace w @ evs \<and>
         list_all (\<lambda>ev. \<not> isImageMetadataEvent ev) evs)) \<and>
   (\<exists>evs. trace (snd (publishImageMetadata e w img)) = trace w @ evs \<and>
      (list_ex isPutImageMetadata evs \<longleftrightarrow> list_ex reportsMetadataAbsent evs))"
proof (intro conjI impI)
  assume "localGitRepo (conveyor w) = None"
  then show "publishImageMetadata e w img = (Inr (), w)"
    by (simp add: publishImageMetadata_def)
next
  assume nogit: "localGitRepo (conveyor w) = None"
  show "\<exists>evs. trace (snd (snd (AfterImageStages e w img))) = trace w @ evs \<and>
         list_all (\<lambda>ev. \<not> isImageMetadataEvent ev) evs"
    using nogit
    by (auto simp add: AfterImageStages_def publishImageMetadata_def addManagedImage_def
        emit_def Let_def split: option.splits prod.splits sum.splits)
next
  show "\<exists>evs. trace (snd (publishImageMetadata e w img)) = trace w @ evs \<and>
      (list_ex isPutImageMetadata evs \<longleftrightarrow> list_ex reportsMetadataAbsent evs)"
    by (auto simp add: publishImageMetadata_def emit_def Let_def split: option.splits sum.splits)
qed

theorem publishImageMetadata_without_and_with_repo_witness:
  "publishImageMetadata env0 world_nogit image0 = (Inr (), world_nogit) \<and>
   trace (snd (snd (AfterImageStages env0 world_nogit image0))) =
     [EvAddManagedImage ''proj'' ''app'' None] \<and>
   trace (snd (publishImageMetadata env0 world_git image0)) =
     [EvHeadCommit (Inr ''c0ffee''),
      EvIsImageMetadataExist ''proj'' ''app'' ''c0ffee'' ''id-1'' (Inr False),
      EvPutImageMetadata ''proj'' ''app'' ''c0ffee'' ''id-1'' None]"
proof -
  have nogit: "localGitRepo (conveyor world_nogit) = None"
    by (simp add: world_nogit_def world0_def)
  from publishImageMetadata_without_and_with_repo [of world_nogit env0 image0] nogit
  have a: "publishImageMetadata env0 world_nogit image0 = (Inr (), world_nogit)"
    by blast
  have b: "trace (snd (snd (AfterImageStages env0 world_nogit image0))) =
     [EvAddManagedImage ''proj'' ''app'' None]"
    by (simp add: AfterImageStages_def publishImageMetadata_def addManagedImage_def
        world_nogit_def world0_def NewBuildPhase_def image0_def stage0_def env0_def emit_def Let_def)
  have c: "trace (snd (publishImageMetadata env0 world_git image0)) =
     [EvHeadCommit (Inr ''c0ffee''),
      EvIsImageMetadataExist ''proj'' ''app'' ''c0ffee'' ''id-1'' (Inr False),
      EvPutImageMetadata ''proj'' ''app'' ''c0ffee'' ''id-1'' None]"
    by (simp add: publishImageMetadata_def world_git_def world_nogit_def world0_def
        NewBuildPhase_def image0_def env0_def emit_def Let_def)
  from a b c show ?thesis by simp
qed

subsection \<open>The retry loops\<close>

lemma Intn_range: "0 < n \<Longrightarrow> 0 \<le> Intn n d \<and> Intn n d < n"
  by (simp add: Intn_def)

lemma backoff_range: "15 \<le> Intn (30 - 15) d + 15 \<and> Intn (30 - 15) d + 15 \<le> 29"
  using Intn_range [of 15 d] by simp

lemma tryPull_sleeps:
  "CliSleep s \<in> set (snd (tryPull f d a k evs)) \<Longrightarrow> CliSleep s \<in> set evs \<or> (15 \<le> s \<and> s \<le> 29)"
proof (induction f d a k evs rule: tryPull.induct)
  case (1 doCliPull draw attempt k evs)
  show ?case
  proof (cases "doCliPull k")
    case None
    with "1.prems" show ?thesis by (simp add: tryPull.simps [of doCliPull draw attempt k evs])
  next
    case (Some err)
    show ?thesis
    proof (cases "attempt < cliPullMaxAttempts \<and> list_ex (Contains err) pullSpecificErrors")
      case True
      with Some "1.prems" have
        "CliSleep s \<in> set (snd (tryPull doCliPull draw (attempt + 1) (Suc k)
           (evs @ [CliCall k (Some err),
                   CliRetryMessage (Intn (30 - 15) (draw k) + 15) (attempt + 1) cliPullMaxAttempts,
                   CliSleep (Intn (30 - 15) (draw k) + 15)])))"
        by (simp add: tryPull.simps [of doCliPull draw attempt k evs] Let_def)
      from "1.IH" [OF Some True refl refl this] backoff_range [of "draw k"]
      show ?thesis by auto
    next
      case False
      with Some "1.prems" show ?thesis
        by (simp add: tryPull.simps [of doCliPull draw attempt k evs])
    qed
  qed
qed

lemma tryPull_retries:
  "length (filter isCliSleep (snd (tryPull f d a k evs))) \<le>
     length (filter isCliSleep evs) + nat (cliPullMaxAttempts - a)"
proof (induction f d a k evs rule: tryPull.induct)
  case (1 doCliPull draw attempt k evs)
  show ?case
  proof (cases "doCliPull k")
    case None
    then show ?thesis by (simp add: tryPull.simps [of doCliPull draw attempt k evs])
  next
    case (Some err)
    show ?thesis
    proof (cases "attempt < cliPullMaxAttempts \<and> list_ex (Contains err) pullSpecificErrors")
      case True
      have step: "tryPull doCliPull draw attempt k evs =
          tryPull doCliPull draw (attempt + 1) (Suc k)
            (evs @ [CliCall k (Some err),
                    CliRetryMessage (Intn (30 - 15) (draw k) + 15) (attempt + 1) cliPullMaxAttempts,
                    CliSleep (Intn (30 - 15) (draw k) + 15)])"
        using Some True by (simp add: tryPull.simps [of doCliPull draw attempt k evs] Let_def)
      from True have "Suc (nat (cliPullMaxAttempts - (attempt + 1))) = nat (cliPullMaxAttempts - attempt)"
        by arith
      with "1.IH" [OF Some True refl refl] show ?thesis
        unfolding step by simp
    next
      case False
      with Some show ?thesis
        by (auto simp add: tryPull.simps [of doCliPull draw attempt k evs])
    qed
  qed
qed

lemma doCliPullWithRetries_at_most_5_retries:
  "length (filter isCliSleep (snd (doCliPullWithRetries doCliPull draw))) \<le> 5"
  using tryPull_retries [of doCliPull draw 0 0 "[]"]
  by (simp add: doCliPullWithRetries_def cliPullMaxAttempts_def)

lemma tryPush_sleeps:
  "CliSleep s \<in> set (snd (tryPush f d a k evs)) \<Longrightarrow> CliSleep s \<in> set evs \<or> (15 \<le> s \<and> s \<le> 29)"
proof (induction f d a k evs rule: tryPush.induct)
  case (1 doCliPush draw attempt k evs)
  show ?case
  proof (cases "doCliPush k")
    case None
    with "1.prems" show ?thesis by (simp add: tryPush.simps [of doCliPush draw attempt k evs])
  next
    case (Some err)
    show ?thesis
    proof (cases "attempt < cliPushMaxAttempts \<and> list_ex (Contains err) pushSpecificErrors")
      case True
      with Some "1.prems" have
        "CliSleep s \<in> set (snd (tryPush doCliPush draw (attempt + 1) (Suc k)
           (evs @ [CliCall k (Some err),
                   CliRetryMessage (Intn (30 - 15) (draw k) + 15) (attempt + 1) cliPushMaxAttempts,
                   CliSleep (Intn (30 - 15) (draw k) + 15)])))"
        by (simp add: tryPush.simps [of doCliPush draw attempt k evs] Let_def)
      from "1.IH" [OF Some True refl refl this] backoff_range [of "draw k"]
      show ?thesis by auto
    next
      case False
      with Some "1.prems" show ?thesis
        by (simp add: tryPush.simps [of doCliPush draw attempt k evs])
    qed
  qed
qed

lemma tryPush_retries:
  "length (filter isCliSleep (snd (tryPush f d a k evs))) \<le>
     length (filter isCliSleep evs) + nat (cliPushMaxAttempts - a)"
proof (induction f d a k evs rule: tryPush.induct)
  case (1 doCliPush draw attempt k evs)
  show ?case
  proof (cases "doCliPush k")
    case None
    then show ?thesis by (simp add: tryPush.simps [of doCliPush draw attempt k evs])
  next
    case (Some err)
    show ?thesis
    proof (cases "attempt < cliPushMaxAttempts \<and> list_ex (Contains err) pushSpecificErrors")
      case True
      have step: "tryPush doCliPush draw attempt k evs =
          tryPush doCliPush draw (attempt + 1) (Suc k)
            (evs @ [CliCall k (Some err),
                    CliRetryMessage (Intn (30 - 15) (draw k) + 15) (attempt + 1) cliPushMaxAttempts,
                    CliSleep (Intn (30 - 15) (draw k) + 15)])"
        using Some True by (simp add: tryPush.simps [of doCliPush draw attempt k evs] Let_def)
      from True have "Suc (nat (cliPushMaxAttempts - (attempt + 1))) = nat (cliPushMaxAttempts - attempt)"
        by arith
      with "1.IH" [OF Some True refl refl] show ?thesis
        unfolding step by simp
    next
      case False
      with Some show ?thesis
        by (auto simp add: tryPush.simps [of doCliPush draw attempt k evs])
    qed
  qed
qed

lemma doCliPushWithRetries_at_most_10_retries:
  "length (filter isCliSleep (snd (doCliPushWithRetries doCliPush draw))) \<le> 10"
  using tryPush_retries [of doCliPush draw 0 0 "[]"]
  by (simp add: doCliPushWithRetries_def cliPushMaxAttempts_def)

text \<open>
  C8. Before each retry both loops sleep \<^verbatim>\<open>rand.Intn(30-15) + 15\<close> seconds: at
  least 15 and at most 29, whatever the generator draws. A backoff of 30 seconds, the upper
  end of the range in the comment of the code, does not occur.
\<close>

theorem retry_backoff_is_15_to_29_seconds:
  "(CliSleep s \<in> set (snd (doCliPullWithRetries doCliPull draw)) \<longrightarrow> 15 \<le> s \<and> s \<le> 29) \<and>
   (CliSleep s \<in> set (snd (doCliPushWithRetries doCliPush draw)) \<longrightarrow> 15 \<le> s \<and> s \<le> 29) \<and>
   CliSleep 30 \<notin> set (snd (doCliPullWithRetries doCliPull draw)) \<and>
   CliSleep 30 \<notin> set (snd (doCliPushWithRetries doCliPush draw))"
  using tryPull_sleeps [of s doCliPull draw 0 0 "[]"] tryPush_sleeps [of s doCliPush draw 0 0 "[]"]
    tryPull_sleeps [of 30 doCliPull draw 0 0 "[]"] tryPush_sleeps [of 30 doCliPush draw 0 0 "[]"]
  by (auto simp add: doCliPullWithRetries_def doCliPushWithRetries_def)

theorem retry_backoff_is_15_to_29_seconds_witness:
  "doCliPullWithRetries pull_timeout_once (\<lambda>k. 14) =
     (None,
      [CliCall 0 (Some ''net/http: TLS handshake timeout''), CliRetryMessage 29 1 5, CliSleep 29,
       CliCall 1 None]) \<and>
   CliSleep 30 \<notin> set (snd (doCliPullWithRetries pull_timeout_once (\<lambda>k. 14)))"
proof -
  have run: "doCliPullWithRetries pull_timeout_once (\<lambda>k. 14) =
     (None,
      [CliCall 0 (Some ''net/http: TLS handshake timeout''), CliRetryMessage 29 1 5, CliSleep 29,
       CliCall 1 None])"
    by (simp add: doCliPullWithRetries_def pull_timeout_once_def tryPull.simps Intn_def
        cliPullMaxAttempts_def pullSpecificErrors_def)
  from retry_backoff_is_15_to_29_seconds [of 29 pull_timeout_once "\<lambda>k. 14"]
  have "CliSleep 30 \<notin> set (snd (doCliPullWithRetries pull_timeout_once (\<lambda>k. 14)))"
    by blast
  with run show ?thesis by blast
qed

lemma doCliPushWithRetries_gives_up_after_10_retries:
  "fst (doCliPushWithRetries push_always_timeout draw) = Some ''dial tcp: i/o timeout'' \<and>
   length (filter isCliSleep (snd (doCliPushWithRetries push_always_timeout draw))) = 10"
  by (simp add: doCliPushWithRetries_def push_always_timeout_def tryPush.simps Intn_def
      cliPushMaxAttempts_def pushSpecificErrors_def Let_def)

text \<open>
  The rest of what the loops do: an error that contains none of the listed texts is
  returned after the first call, and \<^verbatim>\<open>strings.Contains\<close> is the search for a
  contiguous part.
\<close>

lemma Contains_sublist: "Contains s substr \<longleftrightarrow> sublist substr s"
  by (induction s) (simp_all add: sublist_Cons_right)

lemma doCliPullWithRetries_other_error:
  "doCliPull 0 = Some err \<Longrightarrow> \<not> list_ex (Contains err) pullSpecificErrors \<Longrightarrow>
     doCliPullWithRetries doCliPull draw = (Some err, [CliCall 0 (Some err)])"
  by (simp add: doCliPullWithRetries_def tryPull.simps [of doCliPull draw 0 0 "[]"])

lemma doCliPushWithRetries_other_error:
  "doCliPush 0 = Some err \<Longrightarrow> \<not> list_ex (Contains err) pushSpecificErrors \<Longrightarrow>
     doCliPushWithRetries doCliPush draw = (Some err, [CliCall 0 (Some err)])"
  by (simp add: doCliPushWithRetries_def tryPush.simps [of doCliPush draw 0 0 "[]"])

subsection \<open>The handler in the should-be-built mode\<close>

lemma showNat_small:
  "showNat (Suc 0) = ''1''" "showNat (Suc (Suc 0)) = ''2''" "showNat (Suc (Suc (Suc 0))) = ''3''"
  by (simp_all add: showNat.simps)

lemma printShouldBeBuiltError_eq:
  "printShouldBeBuiltError w img stg =
     w\<lparr>trace := trace w @ map EvWarn (diagnosticLines (isDockerfileImage img)
        (stLogDetailedName (stageObj w stg)) (stDigest (stageObj w stg)))\<rparr>"
  by (simp add: printShouldBeBuiltError_def diagnosticLines_def WarnLogF_def WarnLogLn_def emit_def
      reasonNumberFunc_def showNat_small Let_def)

lemma no_build_in_warnings: "list_all (\<lambda>ev. \<not> isFreshImageOrBuild ev) (map EvWarn ls)"
  by (induction ls) auto

lemma beforeStorageQuery_no_select:
  "list_all beforeStorageQuery pre \<Longrightarrow> EvSelectSuitableStage s stages r \<notin> set pre"
  by (auto simp add: list_all_iff)

lemma beforeStorageQuery_no_build:
  "list_all beforeStorageQuery pre \<Longrightarrow> list_all (\<lambda>ev. \<not> isFreshImageOrBuild ev) pre"
  by (induction pre) (auto elim: beforeStorageQuery.elims)

lemma beforeStorageQuery_no_unlock:
  "list_all beforeStorageQuery pre \<Longrightarrow> list_all (\<lambda>ev. \<not> isMutexUnlock ev) pre"
  by (induction pre) (auto elim: beforeStorageQuery.elims)

lemma no_unlock_in_warnings: "list_all (\<lambda>ev. \<not> isMutexUnlock ev) (map EvWarn ls)"
  by (induction ls) auto

lemma calculateStage_digest_trace:
  "calculateStage_digest e w img stg = (rs, w4) \<Longrightarrow>
     \<exists>pre. trace w4 = trace w @ pre \<and> list_all beforeStorageQuery pre"
  by (auto simp add: calculateStage_digest_def calculateDigest_def MutexLock_def SetDigest_def
      emit_def Let_def split: sum.splits option.splits prod.splits if_splits)

lemma calculateStage_digest_frame:
  "calculateStage_digest e w img stg = (rs, w4) \<Longrightarrow>
     imageObj w4 = imageObj w \<and> stageImages (conveyor w4) = stageImages (conveyor w) \<and>
     nextImage w4 = nextImage w \<and> phase w4 = phase w \<and>
     stImage (stageObj w4 stg) = stImage (stageObj w stg) \<and>
     stLogDetailedName (stageObj w4 stg) = stLogDetailedName (stageObj w stg) \<and>
     stName (stageObj w4 stg) = stName (stageObj w stg)"
  by (auto simp add: calculateStage_digest_def calculateDigest_def MutexLock_def SetDigest_def
      emit_def Let_def split: sum.splits option.splits prod.splits if_splits)

lemma calculateStage_digest_locked:
  "calculateStage_digest e w img stg = (Inr sig, w4) \<Longrightarrow>
     stDigest (stageObj w4 stg) = sig \<and> sig \<in> lockedDigests (conveyor w4) \<and>
     EvMutexLock sig \<in> set (drop (length (trace w)) (trace w4))"
  by (auto simp add: calculateStage_digest_def calculateDigest_def MutexLock_def SetDigest_def
      emit_def Let_def split: sum.splits option.splits prod.splits if_splits)

lemma calculateStage_locked_trace:
  "calculateStage_locked e w img stg m sig = (r, w') \<Longrightarrow> \<exists>evs. trace w' = trace w @ evs"
  by (auto simp add: calculateStage_locked_def printShouldBeBuiltError_eq emit_def Let_def
        calculateStage_content_def calculateDigest_def castToStageImage_def
        GetOrCreateStageImage_def SetStageImage_def SetImage_def SetStageDescription_def
        GetStageImage_def SetContentDigest_def
        split: sum.splits option.splits prod.splits ImageInterface.splits if_splits)

lemma calculateStage_locked_required:
  assumes run: "calculateStage_locked e w img stg True sig = (r, w')"
    and tr: "trace w' = trace w @ evs"
    and miss: "EvSelectSuitableStage s stages (Inr None) \<in> set evs"
  shows "r = Inl (Error ''stages required'') \<and>
     (\<exists>ldn d. evs = [EvGetStagesByDigest ldn d (Inr stages), EvSelectSuitableStage stg stages (Inr None)] @
        map EvWarn (diagnosticLines (isDockerfileImage img)
          (stLogDetailedName (stageObj w stg)) (stDigest (stageObj w stg)))) \<and>
     stageObj w' = stageObj w \<and> imageObj w' = imageObj w \<and> conveyor w' = conveyor w \<and>
     nextImage w' = nextImage w \<and> phase w' = phase w"
  using assms
  by (auto simp add: calculateStage_locked_def printShouldBeBuiltError_eq emit_def Let_def
      calculateStage_content_def calculateDigest_def castToStageImage_def
      GetOrCreateStageImage_def SetStageImage_def SetImage_def SetStageDescription_def
      GetStageImage_def SetContentDigest_def
      split: sum.splits option.splits prod.splits ImageInterface.splits)

lemma calculateStage_required:
  assumes run: "calculateStage e w img stg True = (r, w')"
    and tr: "trace w' = trace w @ evs"
    and miss: "EvSelectSuitableStage s stages (Inr None) \<in> set evs"
  shows "r = Inl (Error ''stages required'') \<and>
     (\<exists>pre. evs = pre @ [EvSelectSuitableStage stg stages (Inr None)] @
        map EvWarn (diagnosticLines (isDockerfileImage img)
          (stLogDetailedName (stageObj w stg)) (stDigest (stageObj w' stg)))) \<and>
     list_all (\<lambda>ev. \<not> isFreshImageOrBuild ev) evs \<and>
     stImage (stageObj w' stg) = stImage (stageObj w stg) \<and> imageObj w' = imageObj w \<and>
     stageImages (conveyor w') = stageImages (conveyor w) \<and> nextImage w' = nextImage w \<and>
     phase w' = phase w \<and>
     stDigest (stageObj w' stg) \<in> lockedDigests (conveyor w') \<and>
     EvMutexLock (stDigest (stageObj w' stg)) \<in> set evs \<and>
     list_all (\<lambda>ev. \<not> isMutexUnlock ev) evs"
proof -
  obtain rs w4 where dg: "calculateStage_digest e w img stg = (rs, w4)"
    by (cases "calculateStage_digest e w img stg")
  from calculateStage_digest_trace [OF dg] obtain pre where
    t4: "trace w4 = trace w @ pre" and pre: "list_all beforeStorageQuery pre"
    by blast
  note fr4 = calculateStage_digest_frame [OF dg]
  show ?thesis
  proof (cases rs)
    case (Inl f)
    with run dg have "w' = w4" by (simp add: calculateStage_def)
    with tr t4 miss beforeStorageQuery_no_select [OF pre, of s stages "Inr None"]
    show ?thesis by simp
  next
    case (Inr sig)
    with run dg have locked: "calculateStage_locked e w4 img stg True sig = (r, w')"
      by (simp add: calculateStage_def)
    from calculateStage_locked_trace [OF locked] obtain evs' where
      t': "trace w' = trace w4 @ evs'" ..
    with tr t4 have evs: "evs = pre @ evs'" by simp
    with miss beforeStorageQuery_no_select [OF pre, of s stages "Inr None"]
    have miss': "EvSelectSuitableStage s stages (Inr None) \<in> set evs'" by simp
    from calculateStage_locked_required [OF locked t' miss'] obtain ldn d where
      r: "r = Inl (Error ''stages required'')" and
      e': "evs' = [EvGetStagesByDigest ldn d (Inr stages), EvSelectSuitableStage stg stages (Inr None)] @
        map EvWarn (diagnosticLines (isDockerfileImage img)
          (stLogDetailedName (stageObj w4 stg)) (stDigest (stageObj w4 stg)))" and
      fr: "stageObj w' = stageObj w4" "imageObj w' = imageObj w4" "conveyor w' = conveyor w4"
        "nextImage w' = nextImage w4" "phase w' = phase w4"
      by blast
    have "evs = (pre @ [EvGetStagesByDigest ldn d (Inr stages)]) @
        [EvSelectSuitableStage stg stages (Inr None)] @
        map EvWarn (diagnosticLines (isDockerfileImage img)
          (stLogDetailedName (stageObj w stg)) (stDigest (stageObj w' stg)))"
      using evs e' fr fr4 by simp
    then have shape: "\<exists>pre. evs = pre @ [EvSelectSuitableStage stg stages (Inr None)] @
        map EvWarn (diagnosticLines (isDockerfileImage img)
          (stLogDetailedName (stageObj w stg)) (stDigest (stageObj w' stg)))"
      by (rule exI)
    have nb: "list_all (\<lambda>ev. \<not> isFreshImageOrBuild ev) evs"
      using evs e' beforeStorageQuery_no_build [OF pre] no_build_in_warnings by simp
    from calculateStage_digest_locked [of e w img stg sig w4] dg Inr fr t4
    have lk: "stDigest (stageObj w' stg) \<in> lockedDigests (conveyor w')"
      and ml: "EvMutexLock (stDigest (stageObj w' stg)) \<in> set pre"
      by simp_all
    have nu: "list_all (\<lambda>ev. \<not> isMutexUnlock ev) evs"
      using evs e' beforeStorageQuery_no_unlock [OF pre] no_unlock_in_warnings by simp
    from ml evs have ml': "EvMutexLock (stDigest (stageObj w' stg)) \<in> set evs" by simp
    from r shape nb fr fr4 lk ml' nu show ?thesis by simp
  qed
qed

lemma onImageStage_required:
  assumes mode: "ShouldBeBuiltMode (options (phase w))"
    and run: "onImageStage e w img stg False = (r, w')"
    and tr: "trace w' = trace w @ evs"
    and miss: "EvSelectSuitableStage s stages (Inr None) \<in> set evs"
  shows "r = Inl (Error ''stages required'') \<and>
     (\<exists>pre. evs = pre @ [EvSelectSuitableStage stg stages (Inr None)] @
        map EvWarn (diagnosticLines (isDockerfileImage img)
          (stLogDetailedName (stageObj w stg)) (stDigest (stageObj w' stg)))) \<and>
     list_all (\<lambda>ev. \<not> isFreshImageOrBuild ev) evs \<and>
     stImage (stageObj w' stg) = stImage (stageObj w stg) \<and> imageObj w' = imageObj w \<and>
     stageImages (conveyor w') = stageImages (conveyor w) \<and> nextImage w' = nextImage w \<and>
     stDigest (stageObj w' stg) \<in> lockedDigests (conveyor w') \<and>
     EvMutexLock (stDigest (stageObj w' stg)) \<in> set evs \<and>
     list_all (\<lambda>ev. \<not> isMutexUnlock ev) evs"
proof -
  let ?fd = "FetchDependencies e w stg"
  let ?w1 = "emit (EvFetchDependencies stg ?fd) w"
  show ?thesis
  proof (cases ?fd)
    case (Some err)
    with run have "w' = ?w1" by (simp add: onImageStage_def Let_def)
    with tr miss Some show ?thesis by (auto simp add: emit_def)
  next
    case None
    obtain rc w2 where calc: "calculateStage e ?w1 img stg True = (rc, w2)"
      by (cases "calculateStage e ?w1 img stg True")
    have m1: "ShouldBeBuiltMode (options (phase ?w1))"
      using mode by (simp add: emit_def)
    have "\<exists>evs2. trace w2 = trace ?w1 @ evs2"
    proof -
      obtain rs w4 where dg: "calculateStage_digest e ?w1 img stg = (rs, w4)"
        by (cases "calculateStage_digest e ?w1 img stg")
      from calculateStage_digest_trace [OF dg] obtain pre where
        t4: "trace w4 = trace ?w1 @ pre" by blast
      show ?thesis
      proof (cases rs)
        case (Inl f)
        with calc dg t4 show ?thesis by (auto simp add: calculateStage_def)
      next
        case (Inr sig)
        with calc dg have "calculateStage_locked e w4 img stg True sig = (rc, w2)"
          by (simp add: calculateStage_def)
        from calculateStage_locked_trace [OF this] t4 show ?thesis by auto
      qed
    qed
    then obtain evs2 where t2: "trace w2 = trace ?w1 @ evs2" ..
    show ?thesis
    proof (cases rc)
      case (Inl f)
      with run None m1 calc have rw: "r = Inl f" "w' = w2"
        by (simp_all add: onImageStage_def Let_def)
      with tr t2 have evs: "evs = EvFetchDependencies stg None # evs2"
        using None by (simp add: emit_def)
      with miss have miss2: "EvSelectSuitableStage s stages (Inr None) \<in> set evs2" by simp
      from calculateStage_required [OF calc t2 miss2] rw Inl evs
      show ?thesis by (auto simp add: emit_def)
    next
      case (Inr u)
      with run None m1 calc have
        "trace w' = trace w2 \<or> (\<exists>d. trace w' = trace w2 @ [EvMutexUnlock d])"
        by (auto simp add: onImageStage_def deferred_def MutexUnlock_def emit_def Let_def
            split: if_splits)
      with tr t2 None have
        "evs = EvFetchDependencies stg None # evs2 \<or>
         (\<exists>d. evs = EvFetchDependencies stg None # evs2 @ [EvMutexUnlock d])"
        by (auto simp add: emit_def)
      with miss have miss2: "EvSelectSuitableStage s stages (Inr None) \<in> set evs2" by auto
      from calculateStage_required [OF calc t2 miss2] Inr have False by simp
      then show ?thesis ..
    qed
  qed
qed


text \<open>
  C4. In \<^verbatim>\<open>ShouldBeBuiltMode\<close>, when \<^verbatim>\<open>SelectSuitableStage\<close> returns nil for
  the digest of the stage, the handler returns the error \<^verbatim>\<open>stages required\<close>. What
  it emits ends with that call followed by the diagnostic: the line that names the stage
  and its digest, then the numbered reasons. No UUID for a fresh stage image is drawn and
  nothing is built; the stage's image, the stage images and the registry are unchanged.
\<close>

theorem onImageStage_should_be_built_miss:
  assumes mode: "ShouldBeBuiltMode (options (phase w))"
    and run: "onImageStage e w img stg False = (r, w')"
    and tr: "trace w' = trace w @ evs"
    and miss: "EvSelectSuitableStage s stages (Inr None) \<in> set evs"
  shows "r = Inl (Error ''stages required'') \<and>
     (\<exists>pre. evs = pre @ [EvSelectSuitableStage stg stages (Inr None)] @
        map EvWarn (diagnosticLines (isDockerfileImage img)
          (stLogDetailedName (stageObj w stg)) (stDigest (stageObj w' stg)))) \<and>
     list_all (\<lambda>ev. \<not> isFreshImageOrBuild ev) evs \<and>
     stImage (stageObj w' stg) = stImage (stageObj w stg) \<and> imageObj w' = imageObj w \<and>
     stageImages (conveyor w') = stageImages (conveyor w) \<and> nextImage w' = nextImage w"
  using onImageStage_required [OF mode run tr miss] by simp

theorem onImageStage_should_be_built_miss_witness:
  "onImageStage env0 world_required image0 0 False =
     (Inl (Error ''stages required''),
      world_required
        \<lparr>stageObj := (\<lambda>a. stage0)(0 := stage0\<lparr>stDigest := ''1.2fromdeps''\<rparr>),
         conveyor := (conveyor world_required)\<lparr>lockedDigests := {''1.2fromdeps''}\<rparr>,
         trace :=
           [EvFetchDependencies 0 None,
            EvGetDependencies 0 NilImage NilImage (Inr ''deps''),
            EvMutexLock ''1.2fromdeps'',
            EvGetStagesByDigest ''stage app/from'' ''1.2fromdeps'' (Inr []),
            EvSelectSuitableStage 0 [] (Inr None)] @
           map EvWarn (diagnosticLines False ''stage app/from'' ''1.2fromdeps'')\<rparr>)"
proof -
  let ?X = "onImageStage env0 world_required image0 0 False"
  have mode: "ShouldBeBuiltMode (options (phase world_required))"
    by (simp add: world_required_def world0_def options0_def)
  have ev: "?X = (fst ?X,
      world_required
        \<lparr>stageObj := (\<lambda>a. stage0)(0 := stage0\<lparr>stDigest := ''1.2fromdeps''\<rparr>),
         conveyor := (conveyor world_required)\<lparr>lockedDigests := {''1.2fromdeps''}\<rparr>,
         trace :=
           [EvFetchDependencies 0 None,
            EvGetDependencies 0 NilImage NilImage (Inr ''deps''),
            EvMutexLock ''1.2fromdeps'',
            EvGetStagesByDigest ''stage app/from'' ''1.2fromdeps'' (Inr []),
            EvSelectSuitableStage 0 [] (Inr None)] @
           map EvWarn (diagnosticLines False ''stage app/from'' ''1.2fromdeps'')\<rparr>)"
    by (simp add: onImageStage_def calculateStage_def calculateStage_digest_def calculateDigest_def
        SetDigest_def MutexLock_def calculateStage_locked_def printShouldBeBuiltError_eq
        world_required_def world0_def options0_def NewBuildPhase_def env0_def image0_def stage0_def
        emit_def Let_def)
  have tr: "trace (snd ?X) = trace world_required @
           ([EvFetchDependencies 0 None,
            EvGetDependencies 0 NilImage NilImage (Inr ''deps''),
            EvMutexLock ''1.2fromdeps'',
            EvGetStagesByDigest ''stage app/from'' ''1.2fromdeps'' (Inr []),
            EvSelectSuitableStage 0 [] (Inr None)] @
           map EvWarn (diagnosticLines False ''stage app/from'' ''1.2fromdeps''))"
    by (subst ev) (simp add: world_required_def world0_def)
  have run: "?X = (fst ?X, snd ?X)" by simp
  from onImageStage_should_be_built_miss [OF mode run tr, of 0 "[]"]
  have "fst ?X = Inl (Error ''stages required'')" by simp
  with ev show ?thesis by simp
qed

text \<open>
  C3. In \<^verbatim>\<open>ShouldBeBuiltMode\<close>, when \<^verbatim>\<open>SelectSuitableStage\<close> returns nil, the
  handler returns \<^verbatim>\<open>stages required\<close> with the mutex of the stage's digest still
  locked: \<^verbatim>\<open>calculateStage\<close> has locked it, the handler returns the error before
  the unlock is deferred, and no unlock is among the events.
\<close>

theorem onImageStage_stages_required_leaves_mutex_locked:
  assumes mode: "ShouldBeBuiltMode (options (phase w))"
    and run: "onImageStage e w img stg False = (r, w')"
    and tr: "trace w' = trace w @ evs"
    and miss: "EvSelectSuitableStage s stages (Inr None) \<in> set evs"
  shows "r = Inl (Error ''stages required'') \<and>
     EvMutexLock (stDigest (stageObj w' stg)) \<in> set evs \<and>
     list_all (\<lambda>ev. \<not> isMutexUnlock ev) evs \<and>
     stDigest (stageObj w' stg) \<in> lockedDigests (conveyor w')"
  using onImageStage_required [OF mode run tr miss] by simp

theorem onImageStage_stages_required_leaves_mutex_locked_witness:
  "fst (onImageStage env0 world_required image0 0 False) = Inl (Error ''stages required'') \<and>
   lockedDigests (conveyor world_required) = {} \<and>
   stDigest (stageObj (snd (onImageStage env0 world_required image0 0 False)) 0) = ''1.2fromdeps'' \<and>
   ''1.2fromdeps'' \<in> lockedDigests (conveyor (snd (onImageStage env0 world_required image0 0 False)))"
proof -
  let ?X = "onImageStage env0 world_required image0 0 False"
  have mode: "ShouldBeBuiltMode (options (phase world_required))"
    by (simp add: world_required_def world0_def options0_def)
  have tr: "trace (snd ?X) = trace world_required @
           ([EvFetchDependencies 0 None,
            EvGetDependencies 0 NilImage NilImage (Inr ''deps''),
            EvMutexLock ''1.2fromdeps'',
            EvGetStagesByDigest ''stage app/from'' ''1.2fromdeps'' (Inr []),
            EvSelectSuitableStage 0 [] (Inr None)] @
           map EvWarn (diagnosticLines False ''stage app/from'' ''1.2fromdeps''))"
    and dg: "stDigest (stageObj (snd ?X) 0) = ''1.2fromdeps''"
    by (simp_all add: onImageStage_def calculateStage_def calculateStage_digest_def calculateDigest_def
        SetDigest_def MutexLock_def calculateStage_locked_def printShouldBeBuiltError_eq
        world_required_def world0_def options0_def NewBuildPhase_def env0_def image0_def stage0_def
        emit_def Let_def)
  have run: "?X = (fst ?X, snd ?X)" by simp
  have free: "lockedDigests (conveyor world_required) = {}"
    by (simp add: world_required_def world0_def)
  from onImageStage_stages_required_leaves_mutex_locked [OF mode run tr, of 0 "[]"] dg free
  show ?thesis by simp
qed

subsection \<open>The atomic build\<close>

lemma appendStageIDs_map:
  "appendStageIDs acc stages = Inr ids \<Longrightarrow> map Some ids = map Some acc @ map descStageID stages"
  by (induction stages arbitrary: acc) (auto split: option.splits)

lemma testSleep_eq:
  "testSleep e name w = w\<lparr>trace := trace w @ testSleepEvents e name\<rparr>"
  by (simp add: testSleep_def testSleepEvents_def emit_def Let_def)

lemma testSleepEvents_class: "list_all beforeStorageLock (testSleepEvents e name)"
  by (simp add: testSleepEvents_def)

lemma atomicBuildStageImage_discard_trace:
  "atomicBuildStageImage_discard e w img stg stageDesc = (r, w') \<Longrightarrow> trace w' = trace w"
  by (auto simp add: atomicBuildStageImage_discard_def GetOrCreateStageImage_def GetStageImage_def
      SetStageImage_def SetStageDescription_def SetImage_def Let_def
      split: ImageInterface.splits option.splits prod.splits)

lemma atomicBuildStageImage_discard_rebinds:
  "atomicBuildStageImage_discard e w img stg stageDesc = (r, w') \<Longrightarrow>
   GetPrevImage e w img stg \<noteq> OtherImage \<Longrightarrow>
     r = Inr () \<and>
     (\<exists>i. stImage (stageObj w' stg) = Some i \<and>
        siStageDescription (imageObj w' i) = Some stageDesc \<and>
        stageImages (conveyor w') (InfoName (descInfo stageDesc)) = Some i)"
  by (auto simp add: atomicBuildStageImage_discard_def GetOrCreateStageImage_def GetStageImage_def
      SetStageImage_def SetStageDescription_def SetImage_def Let_def
      split: ImageInterface.splits option.splits prod.splits)

lemma atomicBuildStageImage_publish_trace:
  "atomicBuildStageImage_publish e w img stg stageImage stages = (r, w') \<Longrightarrow>
     \<exists>evs. trace w' = trace w @ evs \<and> list_all isPublishEvent evs"
  by (auto simp add: atomicBuildStageImage_publish_def GetStageImage_def UnsetStageImage_def
      SetName_def SetStageImage_def SetStageDescription_def emit_def Let_def
      split: option.splits sum.splits prod.splits)

lemma appendStageIDs_Nil:
  "appendStageIDs [] stages = Inr ids \<Longrightarrow> map descStageID stages = map Some ids"
  using appendStageIDs_map [of "[]" stages ids] by simp

lemma atomicBuildStageImage_publish_store:
  assumes run: "atomicBuildStageImage_publish e w img stg stageImage stages = (r, w')"
    and tr: "trace w' = trace w @ evs"
    and store: "EvAtomicStoreStagesByDigestToCache n d stageIDs res \<in> set evs"
  shows "(\<exists>g name dsc. evs =
        [EvGenerateStageUniqueID d stages g, EvStoreImage stageImage name None,
         EvGetStageDescription (projectName (conveyor w)) d (snd g) (Inr dsc),
         EvAtomicStoreStagesByDigestToCache n d stageIDs res]) \<and>
     n = stName (stageObj w stg) \<and> d = stDigest (stageObj w stg) \<and>
     (\<exists>dd sid. siStageDescription (imageObj w' stageImage) = Some dd \<and> descStageID dd = Some sid \<and>
        map Some stageIDs = map descStageID stages @ [Some sid])"
proof -
  obtain newName uid where
    g: "GenerateStageUniqueID e w (stDigest (stageObj w stg)) stages = (newName, uid)"
    by (cases "GenerateStageUniqueID e w (stDigest (stageObj w stg)) stages")
  from assms g show ?thesis
    by (auto simp add: atomicBuildStageImage_publish_def GetStageImage_def UnsetStageImage_def
        SetName_def SetStageImage_def SetStageDescription_def emit_def Let_def appendStageIDs_Nil
        split: option.splits sum.splits prod.splits)
qed


lemma isPublishEvent_no_select:
  "list_all isPublishEvent evs \<Longrightarrow> EvSelectSuitableStage s stages r \<notin> set evs"
  by (auto simp add: list_all_iff)

lemma beforeStorageLock_no_select:
  "list_all beforeStorageLock evs \<Longrightarrow> EvSelectSuitableStage s stages r \<notin> set evs"
  by (auto simp add: list_all_iff)

lemma beforeStorageLock_no_store:
  "list_all beforeStorageLock evs \<Longrightarrow> EvAtomicStoreStagesByDigestToCache n d ids r \<notin> set evs"
  by (auto simp add: list_all_iff)

lemma beforeStorageLock_no_publish:
  "list_all beforeStorageLock evs \<Longrightarrow> list_all (\<lambda>ev. \<not> isPublishEvent ev) evs"
  by (induction evs) (auto elim: beforeStorageLock.elims)

text \<open>The part under the lock, when a suitable stage is found.\<close>

lemma atomicBuildStageImage_locked_hit:
  assumes run: "atomicBuildStageImage_locked e w img stg stageImage = (r, w')"
    and tr: "trace w' = trace w @ evs"
    and hit: "EvSelectSuitableStage s stages (Inr (Some stageDesc)) \<in> set evs"
  shows "evs = [EvGetStagesByDigest (stLogDetailedName (stageObj w stg)) (stDigest (stageObj w stg))
              (Inr stages),
            EvSelectSuitableStage stg stages (Inr (Some stageDesc))] \<and>
     atomicBuildStageImage_discard e (w\<lparr>trace := trace w @ evs\<rparr>) img stg stageDesc = (r, w')"
proof -
  let ?r1 = "GetStagesByDigest e w (stLogDetailedName (stageObj w stg)) (stDigest (stageObj w stg))"
  let ?w1 = "emit (EvGetStagesByDigest (stLogDetailedName (stageObj w stg))
                 (stDigest (stageObj w stg)) ?r1) w"
  show ?thesis
  proof (cases ?r1)
    case (Inl err)
    with run have "w' = ?w1" by (simp add: atomicBuildStageImage_locked_def Let_def)
    with tr hit show ?thesis by (auto simp add: emit_def)
  next
    case (Inr stages')
    let ?r2 = "SelectSuitableStage e ?w1 stg stages'"
    let ?w2 = "emit (EvSelectSuitableStage stg stages' ?r2) ?w1"
    show ?thesis
    proof (cases ?r2)
      case (Inl err)
      with run Inr have "w' = ?w2" by (simp add: atomicBuildStageImage_locked_def Let_def)
      with tr hit Inl show ?thesis by (auto simp add: emit_def)
    next
      case r2: (Inr found)
      show ?thesis
      proof (cases found)
        case None
        with run Inr r2 have
          "atomicBuildStageImage_publish e ?w2 img stg stageImage stages' = (r, w')"
          by (simp add: atomicBuildStageImage_locked_def Let_def)
        from atomicBuildStageImage_publish_trace [OF this] obtain evs' where
          "trace w' = trace ?w2 @ evs'" "list_all isPublishEvent evs'" by blast
        with tr hit r2 None isPublishEvent_no_select [of evs' s stages "Inr (Some stageDesc)"]
        show ?thesis by (auto simp add: emit_def)
      next
        case (Some d)
        with run Inr r2 have
          dis: "atomicBuildStageImage_discard e ?w2 img stg d = (r, w')"
          by (simp add: atomicBuildStageImage_locked_def Let_def)
        from atomicBuildStageImage_discard_trace [OF dis] tr
        have evs: "evs = [EvGetStagesByDigest (stLogDetailedName (stageObj w stg))
              (stDigest (stageObj w stg)) ?r1, EvSelectSuitableStage stg stages' ?r2]"
          by (simp add: emit_def)
        with hit r2 Some Inr have "stages' = stages" "d = stageDesc" by auto
        with evs dis r2 Some Inr show ?thesis by (simp add: emit_def)
      qed
    qed
  qed
qed

text \<open>The part under the lock, when the cache of the digest is written.\<close>

lemma atomicBuildStageImage_locked_store:
  assumes run: "atomicBuildStageImage_locked e w img stg stageImage = (r, w')"
    and tr: "trace w' = trace w @ evs"
    and store: "EvAtomicStoreStagesByDigestToCache n d stageIDs res \<in> set evs"
  shows "(\<exists>stages g name dsc. evs =
        [EvGetStagesByDigest (stLogDetailedName (stageObj w stg)) d (Inr stages),
         EvSelectSuitableStage stg stages (Inr None),
         EvGenerateStageUniqueID d stages g, EvStoreImage stageImage name None,
         EvGetStageDescription (projectName (conveyor w)) d (snd g) (Inr dsc),
         EvAtomicStoreStagesByDigestToCache n d stageIDs res] \<and>
        (\<exists>dd sid. siStageDescription (imageObj w' stageImage) = Some dd \<and>
           descStageID dd = Some sid \<and>
           map Some stageIDs = map descStageID stages @ [Some sid])) \<and>
     n = stName (stageObj w stg) \<and> d = stDigest (stageObj w stg)"
proof -
  let ?r1 = "GetStagesByDigest e w (stLogDetailedName (stageObj w stg)) (stDigest (stageObj w stg))"
  let ?w1 = "emit (EvGetStagesByDigest (stLogDetailedName (stageObj w stg))
                 (stDigest (stageObj w stg)) ?r1) w"
  show ?thesis
  proof (cases ?r1)
    case (Inl err)
    with run have "w' = ?w1" by (simp add: atomicBuildStageImage_locked_def Let_def)
    with tr store show ?thesis by (auto simp add: emit_def)
  next
    case (Inr stages')
    let ?r2 = "SelectSuitableStage e ?w1 stg stages'"
    let ?w2 = "emit (EvSelectSuitableStage stg stages' ?r2) ?w1"
    show ?thesis
    proof (cases ?r2)
      case (Inl err)
      with run Inr have "w' = ?w2" by (simp add: atomicBuildStageImage_locked_def Let_def)
      with tr store Inl show ?thesis by (auto simp add: emit_def)
    next
      case r2: (Inr found)
      show ?thesis
      proof (cases found)
        case (Some sd)
        with run Inr r2 have
          dis: "atomicBuildStageImage_discard e ?w2 img stg sd = (r, w')"
          by (simp add: atomicBuildStageImage_locked_def Let_def)
        from atomicBuildStageImage_discard_trace [OF dis] tr store
        show ?thesis by (auto simp add: emit_def)
      next
        case None
        with run Inr r2 have
          pub: "atomicBuildStageImage_publish e ?w2 img stg stageImage stages' = (r, w')"
          by (simp add: atomicBuildStageImage_locked_def Let_def)
        from atomicBuildStageImage_publish_trace [OF pub] obtain evs' where
          t': "trace w' = trace ?w2 @ evs'" by blast
        with tr have evs: "evs = [EvGetStagesByDigest (stLogDetailedName (stageObj w stg))
              (stDigest (stageObj w stg)) ?r1, EvSelectSuitableStage stg stages' ?r2] @ evs'"
          by (simp add: emit_def)
        with store have store': "EvAtomicStoreStagesByDigestToCache n d stageIDs res \<in> set evs'"
          by simp
        from atomicBuildStageImage_publish_store [OF pub t' store'] evs Inr r2 None
        show ?thesis by (auto simp add: emit_def)
      qed
    qed
  qed
qed

lemma atomicBuildStageImage_locked_trace:
  "atomicBuildStageImage_locked e w img stg stageImage = (r, w') \<Longrightarrow>
     \<exists>evs. trace w' = trace w @ evs"
  using atomicBuildStageImage_publish_trace atomicBuildStageImage_discard_trace
  by (fastforce simp add: atomicBuildStageImage_locked_def emit_def Let_def
      split: sum.splits option.splits)


lemma atomicBuildStageImage_build_fail:
  "atomicBuildStageImage_build e w img stg = (Inl f, w4) \<Longrightarrow>
     \<exists>pre. trace w4 = trace w @ pre \<and> list_all beforeStorageLock pre"
  by (auto simp add: atomicBuildStageImage_build_def testSleep_eq emit_def Let_def
      testSleepEvents_class split: option.splits sum.splits)

lemma atomicBuildStageImage_build_ok:
  "atomicBuildStageImage_build e w img stg = (Inr (si, lock), w4) \<Longrightarrow>
     stImage (stageObj w stg) = Some si \<and>
     w4 = w\<lparr>trace := trace w @ testSleepEvents e beforeBuild @ [EvBuild si None] @
            testSleepEvents e beforeSave @
            [EvLockStage (projectName (conveyor w)) (stDigest (stageObj w stg)) (Inr lock)]\<rparr>"
  by (auto simp add: atomicBuildStageImage_build_def testSleep_eq emit_def Let_def
      split: option.splits sum.splits)

text \<open>
  C2. When \<^verbatim>\<open>SelectSuitableStage\<close> finds a suitable stage in
  \<^verbatim>\<open>atomicBuildStageImage\<close>, this happened after the build and under the lock of
  the storage on the project and the stage's digest, on the stages that
  \<^verbatim>\<open>GetStagesByDigest\<close> returned for that digest; nothing follows but the unlock:
  no \<^verbatim>\<open>GenerateStageUniqueID\<close>, no \<^verbatim>\<open>StoreImage\<close>, no write of the cache.
  When the previous image, as \<^verbatim>\<open>GetPrevImage\<close> returns it then, is a stage image or
  nil (for an image of another type the type switch panics), the function returns nil and
  the stage's image is the stage image registered under the name of the found description,
  carrying that description.
\<close>

theorem atomicBuildStageImage_suitable_found:
  assumes run: "atomicBuildStageImage e w img stg = (r, w')"
    and tr: "trace w' = trace w @ evs"
    and hit: "EvSelectSuitableStage s stages (Inr (Some stageDesc)) \<in> set evs"
  shows "(\<exists>si lock. stImage (stageObj w stg) = Some si \<and>
       evs = testSleepEvents e beforeBuild @ [EvBuild si None] @ testSleepEvents e beforeSave @
         [EvLockStage (projectName (conveyor w)) (stDigest (stageObj w stg)) (Inr lock),
          EvGetStagesByDigest (stLogDetailedName (stageObj w stg)) (stDigest (stageObj w stg))
            (Inr stages),
          EvSelectSuitableStage stg stages (Inr (Some stageDesc)),
          EvUnlockStage lock]) \<and>
     list_all (\<lambda>ev. \<not> isPublishEvent ev) evs \<and>
     (GetPrevImage e (w\<lparr>trace := trace w @ butlast evs\<rparr>) img stg \<noteq> OtherImage \<longrightarrow>
        r = Inr () \<and>
        (\<exists>i. stImage (stageObj w' stg) = Some i \<and>
           siStageDescription (imageObj w' i) = Some stageDesc \<and>
           stageImages (conveyor w') (InfoName (descInfo stageDesc)) = Some i))"
proof -
  obtain rb w4 where bd: "atomicBuildStageImage_build e w img stg = (rb, w4)"
    by (cases "atomicBuildStageImage_build e w img stg")
  show ?thesis
  proof (cases rb)
    case (Inl f)
    with run bd have "w' = w4" by (simp add: atomicBuildStageImage_def)
    with atomicBuildStageImage_build_fail [of e w img stg f w4] bd Inl tr hit
      beforeStorageLock_no_select [of evs s stages "Inr (Some stageDesc)"]
    show ?thesis by auto
  next
    case (Inr b)
    obtain si lock where b: "b = (si, lock)" by (cases b)
    from atomicBuildStageImage_build_ok [of e w img stg si lock w4] bd Inr b
    have si: "stImage (stageObj w stg) = Some si" and
      w4: "w4 = w\<lparr>trace := trace w @ testSleepEvents e beforeBuild @ [EvBuild si None] @
            testSleepEvents e beforeSave @
            [EvLockStage (projectName (conveyor w)) (stDigest (stageObj w stg)) (Inr lock)]\<rparr>"
      by simp_all
    obtain rl w5 where lk: "atomicBuildStageImage_locked e w4 img stg si = (rl, w5)"
      by (cases "atomicBuildStageImage_locked e w4 img stg si")
    from run bd Inr b lk have res: "r = rl" "w' = emit (EvUnlockStage lock) w5"
      by (simp_all add: atomicBuildStageImage_def deferred_def)
    from atomicBuildStageImage_locked_trace [OF lk] obtain evs5 where
      t5: "trace w5 = trace w4 @ evs5" ..
    let ?pre = "testSleepEvents e beforeBuild @ [EvBuild si None] @ testSleepEvents e beforeSave @
            [EvLockStage (projectName (conveyor w)) (stDigest (stageObj w stg)) (Inr lock)]"
    have t4: "trace w4 = trace w @ ?pre" by (subst w4) simp
    from tr res t5 t4 have evs: "evs = ?pre @ evs5 @ [EvUnlockStage lock]"
      by (simp add: emit_def)
    have "list_all beforeStorageLock ?pre" by (simp add: testSleepEvents_class)
    from beforeStorageLock_no_select [OF this, of s stages "Inr (Some stageDesc)"] hit evs
    have hit5: "EvSelectSuitableStage s stages (Inr (Some stageDesc)) \<in> set evs5" by auto
    have fr4: "stageObj w4 = stageObj w" "conveyor w4 = conveyor w" by (subst w4, simp)+
    from atomicBuildStageImage_locked_hit [OF lk t5 hit5] fr4
    have e5: "evs5 = [EvGetStagesByDigest (stLogDetailedName (stageObj w stg))
              (stDigest (stageObj w stg)) (Inr stages),
            EvSelectSuitableStage stg stages (Inr (Some stageDesc))]"
      and dis: "atomicBuildStageImage_discard e (w4\<lparr>trace := trace w4 @ evs5\<rparr>) img stg stageDesc =
         (rl, w5)"
      by auto
    have shape: "evs = testSleepEvents e beforeBuild @ [EvBuild si None] @ testSleepEvents e beforeSave @
         [EvLockStage (projectName (conveyor w)) (stDigest (stageObj w stg)) (Inr lock),
          EvGetStagesByDigest (stLogDetailedName (stageObj w stg)) (stDigest (stageObj w stg))
            (Inr stages),
          EvSelectSuitableStage stg stages (Inr (Some stageDesc)),
          EvUnlockStage lock]"
      using evs e5 by simp
    have nopub: "list_all (\<lambda>ev. \<not> isPublishEvent ev) evs"
      unfolding shape
      using beforeStorageLock_no_publish [OF testSleepEvents_class [of e beforeBuild]]
        beforeStorageLock_no_publish [OF testSleepEvents_class [of e beforeSave]]
      by simp
    have rebound: "r = Inr () \<and>
        (\<exists>i. stImage (stageObj w' stg) = Some i \<and>
           siStageDescription (imageObj w' i) = Some stageDesc \<and>
           stageImages (conveyor w') (InfoName (descInfo stageDesc)) = Some i)"
      if typed: "GetPrevImage e (w\<lparr>trace := trace w @ butlast evs\<rparr>) img stg \<noteq> OtherImage"
    proof -
      have "w4\<lparr>trace := trace w4 @ evs5\<rparr> = w\<lparr>trace := trace w @ butlast evs\<rparr>"
        by (subst (1 2) w4) (simp add: evs butlast_append)
      with atomicBuildStageImage_discard_rebinds [OF dis] typed res show ?thesis
        by (simp add: emit_def)
    qed
    from si shape nopub rebound show ?thesis by blast
  qed
qed


text \<open>
  C5. When \<^verbatim>\<open>atomicBuildStageImage\<close> calls
  \<^verbatim>\<open>AtomicStoreStagesByDigestToCache\<close>, it does so under the lock, after
  \<^verbatim>\<open>SelectSuitableStage\<close> has returned nil; the stage IDs it passes are those of
  the stages that \<^verbatim>\<open>GetStagesByDigest\<close> returned under the lock, in their order,
  followed by the stage ID of the image that was stored.
\<close>

theorem atomicBuildStageImage_cache_stage_ids:
  assumes run: "atomicBuildStageImage e w img stg = (r, w')"
    and tr: "trace w' = trace w @ evs"
    and store: "EvAtomicStoreStagesByDigestToCache n d stageIDs res \<in> set evs"
  shows "(\<exists>si lock stages g name dsc.
       stImage (stageObj w stg) = Some si \<and>
       evs = testSleepEvents e beforeBuild @ [EvBuild si None] @ testSleepEvents e beforeSave @
         [EvLockStage (projectName (conveyor w)) d (Inr lock),
          EvGetStagesByDigest (stLogDetailedName (stageObj w stg)) d (Inr stages),
          EvSelectSuitableStage stg stages (Inr None),
          EvGenerateStageUniqueID d stages g,
          EvStoreImage si name None,
          EvGetStageDescription (projectName (conveyor w)) d (snd g) (Inr dsc),
          EvAtomicStoreStagesByDigestToCache n d stageIDs res,
          EvUnlockStage lock] \<and>
       (\<exists>dd sid. siStageDescription (imageObj w' si) = Some dd \<and> descStageID dd = Some sid \<and>
          map Some stageIDs = map descStageID stages @ [Some sid])) \<and>
     n = stName (stageObj w stg) \<and> d = stDigest (stageObj w stg)"
proof -
  obtain rb w4 where bd: "atomicBuildStageImage_build e w img stg = (rb, w4)"
    by (cases "atomicBuildStageImage_build e w img stg")
  show ?thesis
  proof (cases rb)
    case (Inl f)
    with run bd have "w' = w4" by (simp add: atomicBuildStageImage_def)
    with atomicBuildStageImage_build_fail [of e w img stg f w4] bd Inl tr store
      beforeStorageLock_no_store [of evs n d stageIDs res]
    show ?thesis by auto
  next
    case (Inr b)
    obtain si lock where b: "b = (si, lock)" by (cases b)
    from atomicBuildStageImage_build_ok [of e w img stg si lock w4] bd Inr b
    have si: "stImage (stageObj w stg) = Some si" and
      w4: "w4 = w\<lparr>trace := trace w @ testSleepEvents e beforeBuild @ [EvBuild si None] @
            testSleepEvents e beforeSave @
            [EvLockStage (projectName (conveyor w)) (stDigest (stageObj w stg)) (Inr lock)]\<rparr>"
      by simp_all
    obtain rl w5 where lk: "atomicBuildStageImage_locked e w4 img stg si = (rl, w5)"
      by (cases "atomicBuildStageImage_locked e w4 img stg si")
    from run bd Inr b lk have res: "r = rl" "w' = emit (EvUnlockStage lock) w5"
      by (simp_all add: atomicBuildStageImage_def deferred_def)
    from atomicBuildStageImage_locked_trace [OF lk] obtain evs5 where
      t5: "trace w5 = trace w4 @ evs5" ..
    let ?pre = "testSleepEvents e beforeBuild @ [EvBuild si None] @ testSleepEvents e beforeSave @
            [EvLockStage (projectName (conveyor w)) (stDigest (stageObj w stg)) (Inr lock)]"
    have t4: "trace w4 = trace w @ ?pre" by (subst w4) simp
    from tr res t5 t4 have evs: "evs = ?pre @ evs5 @ [EvUnlockStage lock]"
      by (simp add: emit_def)
    have "list_all beforeStorageLock ?pre" by (simp add: testSleepEvents_class)
    from beforeStorageLock_no_store [OF this, of n d stageIDs res] store evs
    have store5: "EvAtomicStoreStagesByDigestToCache n d stageIDs res \<in> set evs5" by auto
    have fr4: "stageObj w4 = stageObj w" "conveyor w4 = conveyor w" by (subst w4, simp)+
    from atomicBuildStageImage_locked_store [OF lk t5 store5] fr4 obtain stages g name dsc dd sid
      where e5: "evs5 =
        [EvGetStagesByDigest (stLogDetailedName (stageObj w stg)) d (Inr stages),
         EvSelectSuitableStage stg stages (Inr None),
         EvGenerateStageUniqueID d stages g, EvStoreImage si name None,
         EvGetStageDescription (projectName (conveyor w)) d (snd g) (Inr dsc),
         EvAtomicStoreStagesByDigestToCache n d stageIDs res]"
      and ids: "siStageDescription (imageObj w5 si) = Some dd" "descStageID dd = Some sid"
        "map Some stageIDs = map descStageID stages @ [Some sid]"
      and nd: "n = stName (stageObj w stg)" "d = stDigest (stageObj w stg)"
      by auto
    have shape: "evs = testSleepEvents e beforeBuild @ [EvBuild si None] @ testSleepEvents e beforeSave @
         [EvLockStage (projectName (conveyor w)) d (Inr lock),
          EvGetStagesByDigest (stLogDetailedName (stageObj w stg)) d (Inr stages),
          EvSelectSuitableStage stg stages (Inr None),
          EvGenerateStageUniqueID d stages g,
          EvStoreImage si name None,
          EvGetStageDescription (projectName (conveyor w)) d (snd g) (Inr dsc),
          EvAtomicStoreStagesByDigestToCache n d stageIDs res,
          EvUnlockStage lock]"
      using evs e5 nd by simp
    have ids': "siStageDescription (imageObj w' si) = Some dd"
      using ids(1) res by (simp add: emit_def)
    from si shape ids' ids(2,3) nd show ?thesis by blast
  qed
qed


theorem atomicBuildStageImage_suitable_found_witness:
  "fst (atomicBuildStageImage env_race world_built image0 0) = Inr () \<and>
   trace (snd (atomicBuildStageImage env_race world_built image0 0)) =
     [EvBuild 5 None, EvLockStage ''proj'' ''d1'' (Inr 7),
      EvGetStagesByDigest ''stage app/from'' ''d1'' (Inr [description1]),
      EvSelectSuitableStage 0 [description1] (Inr (Some description1)),
      EvUnlockStage 7] \<and>
   stImage (stageObj (snd (atomicBuildStageImage env_race world_built image0 0)) 0) = Some 6 \<and>
   siStageDescription (imageObj (snd (atomicBuildStageImage env_race world_built image0 0)) 6) =
     Some description1"
proof -
  let ?X = "atomicBuildStageImage env_race world_built image0 0"
  have ev: "trace (snd ?X) =
     [EvBuild 5 None, EvLockStage ''proj'' ''d1'' (Inr 7),
      EvGetStagesByDigest ''stage app/from'' ''d1'' (Inr [description1]),
      EvSelectSuitableStage 0 [description1] (Inr (Some description1)),
      EvUnlockStage 7]"
    and im: "stImage (stageObj (snd ?X) 0) = Some 6"
      "siStageDescription (imageObj (snd ?X) 6) = Some description1"
    by (simp_all add: atomicBuildStageImage_def atomicBuildStageImage_build_def testSleep_def
        atomicBuildStageImage_locked_def atomicBuildStageImage_discard_def deferred_def
        GetOrCreateStageImage_def GetStageImage_def SetStageImage_def SetStageDescription_def
        SetImage_def env_race_def env0_def world_built_def world0_def stage0_def stageImage0_def
        description1_def emit_def Let_def)
  have run: "?X = (fst ?X, snd ?X)" by simp
  have tr: "trace (snd ?X) = trace world_built @
     [EvBuild 5 None, EvLockStage ''proj'' ''d1'' (Inr 7),
      EvGetStagesByDigest ''stage app/from'' ''d1'' (Inr [description1]),
      EvSelectSuitableStage 0 [description1] (Inr (Some description1)),
      EvUnlockStage 7]"
    using ev by (simp add: world_built_def world0_def)
  have typed: "GetPrevImage env_race w'' image0 0 \<noteq> OtherImage" for w''
    by (simp add: env_race_def env0_def)
  from atomicBuildStageImage_suitable_found [OF run tr, of 0 "[description1]" description1] typed
  have "fst ?X = Inr ()" by simp
  with ev im show ?thesis by simp
qed

theorem atomicBuildStageImage_cache_stage_ids_witness:
  "trace (snd (atomicBuildStageImage env_publish world_built image0 0)) =
     [EvBuild 5 None, EvLockStage ''proj'' ''d1'' (Inr 7),
      EvGetStagesByDigest ''stage app/from'' ''d1'' (Inr [description1]),
      EvSelectSuitableStage 0 [description1] (Inr None),
      EvGenerateStageUniqueID ''d1'' [description1] (''repo:new'', 42),
      EvStoreImage 5 ''repo:new'' None,
      EvGetStageDescription ''proj'' ''d1'' 42 (Inr (Some description2)),
      EvAtomicStoreStagesByDigestToCache ''from'' ''d1''
        [\<lparr>Digest = ''d1'', UniqueID = 1\<rparr>, \<lparr>Digest = ''d1'', UniqueID = 42\<rparr>] None,
      EvUnlockStage 7] \<and>
   (\<exists>sid. map Some [\<lparr>Digest = ''d1'', UniqueID = 1\<rparr>, \<lparr>Digest = ''d1'', UniqueID = 42\<rparr>] =
      map descStageID [description1] @ [Some sid])"
proof -
  let ?X = "atomicBuildStageImage env_publish world_built image0 0"
  let ?ids = "[\<lparr>Digest = ''d1'', UniqueID = 1\<rparr>, \<lparr>Digest = ''d1'', UniqueID = 42\<rparr>]"
  have ev: "trace (snd ?X) =
     [EvBuild 5 None, EvLockStage ''proj'' ''d1'' (Inr 7),
      EvGetStagesByDigest ''stage app/from'' ''d1'' (Inr [description1]),
      EvSelectSuitableStage 0 [description1] (Inr None),
      EvGenerateStageUniqueID ''d1'' [description1] (''repo:new'', 42),
      EvStoreImage 5 ''repo:new'' None,
      EvGetStageDescription ''proj'' ''d1'' 42 (Inr (Some description2)),
      EvAtomicStoreStagesByDigestToCache ''from'' ''d1'' ?ids None,
      EvUnlockStage 7]"
    by (simp add: atomicBuildStageImage_def atomicBuildStageImage_build_def testSleep_def
        atomicBuildStageImage_locked_def atomicBuildStageImage_publish_def deferred_def
        GetStageImage_def UnsetStageImage_def SetName_def SetStageImage_def
        SetStageDescription_def env_publish_def env0_def world_built_def world0_def stage0_def
        stageImage0_def description1_def description2_def emit_def Let_def)
  have run: "?X = (fst ?X, snd ?X)" by simp
  have tr: "trace (snd ?X) = trace world_built @
     [EvBuild 5 None, EvLockStage ''proj'' ''d1'' (Inr 7),
      EvGetStagesByDigest ''stage app/from'' ''d1'' (Inr [description1]),
      EvSelectSuitableStage 0 [description1] (Inr None),
      EvGenerateStageUniqueID ''d1'' [description1] (''repo:new'', 42),
      EvStoreImage 5 ''repo:new'' None,
      EvGetStageDescription ''proj'' ''d1'' 42 (Inr (Some description2)),
      EvAtomicStoreStagesByDigestToCache ''from'' ''d1'' ?ids None,
      EvUnlockStage 7]"
    using ev by (simp add: world_built_def world0_def)
  from atomicBuildStageImage_cache_stage_ids [OF run tr, of "''from''" "''d1''" ?ids None]
  have "\<exists>sid. map Some ?ids = map descStageID [description1] @ [Some sid]"
    by auto
  with ev show ?thesis by simp
qed

end
